theory Spec2Isabelle
  imports Complex_Main "HOL-Library.AList"
begin

section \<open>Data model of \<open>fc_net.py\<close>\<close>

text \<open>
  The exceptions that the code of \<open>fc_net.py\<close>, Python's lists and dictionaries and numpy can
  raise on the paths modelled here. Every function that can raise returns \<open>error + 'a\<close>.
\<close>

datatype error = IndexError | KeyError | ValueError | TypeError

text \<open>
  A numpy array: its shape and its entries in row-major order. The entries are taken over the
  reals; the configured precision (\<open>dtype\<close>) is a rounding function applied by \<open>astype\<close>.
\<close>

record ndarray =
  shape :: "nat list"
  data :: "real list"

text \<open>The values stored in the \<open>dropout_param\<close> and \<open>bn_param\<close> dictionaries.\<close>

datatype pyval = PyStr string | PyFloat real | PyInt int

text \<open>
  A Python \<open>dict\<close> keeps its keys in insertion order: an association list, written with
  \<open>AList.update\<close> (overwrite in place, or append a new key) and read with \<open>dict_get\<close>.
\<close>

type_synonym 'v dict = "(string \<times> 'v) list"

definition dict_get :: "'v dict \<Rightarrow> string \<Rightarrow> error + 'v" where
  "dict_get d k = (case map_of d k of None \<Rightarrow> Inl KeyError | Some v \<Rightarrow> Inr v)"

text \<open>
  Python list indexing \<open>xs[i]\<close>: an index from \<open>-len(xs)\<close> to \<open>-1\<close> counts from the end, and
  any index outside \<open>-len(xs) .. len(xs) - 1\<close> raises \<open>IndexError\<close>.
\<close>

definition py_index :: "'a list \<Rightarrow> int \<Rightarrow> error + 'a" where
  "py_index xs i =
     (if 0 \<le> i \<and> i < int (length xs) then Inr (xs ! nat i)
      else if - int (length xs) \<le> i \<and> i < 0 then Inr (xs ! nat (int (length xs) + i))
      else Inl IndexError)"

subsection \<open>Parameter names\<close>

text \<open>\<open>str(index)\<close> of a non-negative Python integer: its decimal digits.\<close>

definition digit_char :: "nat \<Rightarrow> char" where
  "digit_char d = ''0123456789'' ! d"

fun py_str :: "nat \<Rightarrow> string" where
  "py_str n = (if n < 10 then [digit_char n] else py_str (n div 10) @ [digit_char (n mod 10)])"

declare py_str.simps [simp del]

text \<open>The f-strings \<open>f"W{index}"\<close> and \<open>f"b{index}"\<close>.\<close>

definition key_W :: "nat \<Rightarrow> string" where
  "key_W index = ''W'' @ py_str index"

definition key_b :: "nat \<Rightarrow> string" where
  "key_b index = ''b'' @ py_str index"

subsection \<open>The numpy operations used by \<open>fc_net.py\<close>\<close>

text \<open>\<open>np.zeros((n,))\<close>: numpy rejects a negative dimension with a \<open>ValueError\<close>.\<close>

definition np_zeros :: "int \<Rightarrow> error + ndarray" where
  "np_zeros n =
     (if n < 0 then Inl ValueError
      else Inr \<lparr>shape = [nat n], data = replicate (nat n) 0\<rparr>)"

text \<open>
  \<open>np.random.normal(loc, scale, (d1, d2))\<close>. The global generator is a parameter of the model:
  \<open>rng\<close> is the stream of standard-normal draws it will produce, \<open>k\<close> the number of draws
  already consumed. numpy raises \<open>ValueError\<close> for a negative \<open>scale\<close> and for a negative
  dimension.
\<close>

definition np_random_normal ::
  "(nat \<Rightarrow> real) \<Rightarrow> nat \<Rightarrow> real \<Rightarrow> real \<Rightarrow> int \<times> int \<Rightarrow> error + (ndarray \<times> nat)" where
  "np_random_normal rng k loc scale dims =
     (case dims of (d1, d2) \<Rightarrow>
        if scale < 0 \<or> d1 < 0 \<or> d2 < 0 then Inl ValueError
        else let n = nat d1 * nat d2
             in Inr (\<lparr>shape = [nat d1, nat d2],
                      data = map (\<lambda>i. loc + scale * rng i) [k ..< k + n]\<rparr>, k + n))"

text \<open>\<open>a.astype(dtype)\<close>: a new array of the same shape, every entry rounded to the precision.\<close>

definition astype :: "(real \<Rightarrow> real) \<Rightarrow> ndarray \<Rightarrow> ndarray" where
  "astype dt a = \<lparr>shape = shape a, data = map dt (data a)\<rparr>"

text \<open>\<open>np.linalg.norm(a, 'fro')\<close>: defined for matrices only.\<close>

definition np_linalg_norm_fro :: "ndarray \<Rightarrow> error + real" where
  "np_linalg_norm_fro a =
     (if length (shape a) = 2 then Inr (sqrt (\<Sum>x\<leftarrow>data a. x\<^sup>2)) else Inl ValueError)"

text \<open>\<open>c * a\<close> for a Python scalar \<open>c\<close>.\<close>

definition np_scale :: "real \<Rightarrow> ndarray \<Rightarrow> ndarray" where
  "np_scale c a = \<lparr>shape = shape a, data = map (\<lambda>x. c * x) (data a)\<rparr>"

text \<open>
  \<open>a + b\<close> with numpy's broadcasting. The shapes are aligned at their last dimension; two
  dimensions are compatible when they are equal or one of them is 1; otherwise numpy raises
  \<open>ValueError\<close>. \<open>broadcast_dims\<close> works on the reversed shapes.
\<close>

fun broadcast_dims :: "nat list \<Rightarrow> nat list \<Rightarrow> nat list option" where
  "broadcast_dims [] ys = Some ys"
| "broadcast_dims xs [] = Some xs"
| "broadcast_dims (x # xs) (y # ys) =
     (if x = y \<or> y = 1 then map_option ((#) x) (broadcast_dims xs ys)
      else if x = 1 then map_option ((#) y) (broadcast_dims xs ys)
      else None)"

definition broadcast_shapes :: "nat list \<Rightarrow> nat list \<Rightarrow> nat list option" where
  "broadcast_shapes s t = map_option rev (broadcast_dims (rev s) (rev t))"

text \<open>
  The entry of \<open>a\<close> that lands at flat position \<open>k\<close> of the broadcast result of shape \<open>t\<close>:
  going through the dimensions from the last one, the index along a dimension of extent 1 (or
  a missing one) is 0.
\<close>

fun source_index :: "nat list \<Rightarrow> nat list \<Rightarrow> nat \<Rightarrow> nat" where
  "source_index [] ts k = 0"
| "source_index (s # ss) [] k = 0"
| "source_index (s # ss) (t # ts) k =
     (if s = 1 then 0 else k mod t) + s * source_index ss ts (k div t)"

definition broadcast_to :: "ndarray \<Rightarrow> nat list \<Rightarrow> real list" where
  "broadcast_to a t =
     map (\<lambda>k. data a ! source_index (rev (shape a)) (rev t) k) [0 ..< prod_list t]"

definition np_add :: "ndarray \<Rightarrow> ndarray \<Rightarrow> error + ndarray" where
  "np_add a b =
     (case broadcast_shapes (shape a) (shape b) of
        None \<Rightarrow> Inl ValueError
      | Some t \<Rightarrow> Inr \<lparr>shape = t, data = map2 (+) (broadcast_to a t) (broadcast_to b t)\<rparr>)"

text \<open>
  Every numpy array holds as many entries as its shape says. The record type does not
  enforce it, so it is a predicate.
\<close>

definition well_formed :: "ndarray \<Rightarrow> bool" where
  "well_formed a \<longleftrightarrow> length (data a) = prod_list (shape a)"

text \<open>\<open>np.sum\<close> of a Python list of scalars.\<close>

definition np_sum :: "real list \<Rightarrow> real" where
  "np_sum xs = sum_list xs"

text \<open>\<open>range(a, b)\<close> for non-negative bounds.\<close>

definition py_range :: "nat \<Rightarrow> nat \<Rightarrow> nat list" where
  "py_range a b = [a ..< b]"

subsection \<open>The collaborators\<close>

text \<open>
  The layer primitives imported from \<open>deeplearning.layers\<close> and \<open>deeplearning.layer_utils\<close>
  are parameters of the model: \<open>fc_net.py\<close> only composes them. A cache is an opaque value of
  type \<open>'c\<close>; a primitive may raise. \<open>softmax_loss\<close> receives whatever \<open>scores\<close> holds, which
  is \<open>None\<close> when no layer ran.
\<close>

record 'c layers =
  affine_forward :: "ndarray \<Rightarrow> ndarray \<Rightarrow> ndarray \<Rightarrow> error + (ndarray \<times> 'c)"
  affine_backward :: "ndarray \<Rightarrow> 'c \<Rightarrow> error + (ndarray \<times> ndarray \<times> ndarray)"
  affine_relu_forward :: "ndarray \<Rightarrow> ndarray \<Rightarrow> ndarray \<Rightarrow> error + (ndarray \<times> 'c)"
  affine_relu_backward :: "ndarray \<Rightarrow> 'c \<Rightarrow> error + (ndarray \<times> ndarray \<times> ndarray)"
  softmax_loss :: "ndarray option \<Rightarrow> int list \<Rightarrow> error + (real \<times> ndarray)"

subsection \<open>The two network classes\<close>

text \<open>
  The attributes of a \<open>TwoLayerNet\<close> are \<open>params\<close> and \<open>reg\<close>; a \<open>FullyConnectedNet\<close> has these
  and six more, so its record extends the first one.
\<close>

record two_layer_net =
  params :: "ndarray dict"
  reg :: real

record net = two_layer_net +
  use_batchnorm :: bool
  use_dropout :: bool
  num_layers :: nat
  dtype :: "real \<Rightarrow> real"
  dropout_param :: "pyval dict option"
  bn_params :: "pyval dict list"

text \<open>What \<open>loss\<close> returns: \<open>scores\<close> (possibly still \<open>None\<close>), or the pair \<open>(loss, grads)\<close>.\<close>

datatype loss_out = PyNone | Scores ndarray | LossGrads real "ndarray dict"

section \<open>\<open>TwoLayerNet\<close>\<close>

text \<open>
  \<open>TwoLayerNet.__init__\<close>. The dictionary literal fixes the key order \<open>W1, W2, b1, b2\<close>; its
  \<open>None\<close> placeholders are all overwritten before the constructor returns.
\<close>

definition TwoLayerNet_init ::
  "(nat \<Rightarrow> real) \<Rightarrow> int \<Rightarrow> int \<Rightarrow> int \<Rightarrow> real \<Rightarrow> real \<Rightarrow> error + two_layer_net" where
  "TwoLayerNet_init rng input_dim hidden_dim num_classes weight_scale rg =
     (case np_random_normal rng 0 0 weight_scale (input_dim, hidden_dim) of
        Inl e \<Rightarrow> Inl e
      | Inr (W1, k1) \<Rightarrow>
     (case np_zeros hidden_dim of
        Inl e \<Rightarrow> Inl e
      | Inr b1 \<Rightarrow>
     (case np_random_normal rng k1 0 weight_scale (hidden_dim, num_classes) of
        Inl e \<Rightarrow> Inl e
      | Inr (W2, k2) \<Rightarrow>
     (case np_zeros num_classes of
        Inl e \<Rightarrow> Inl e
      | Inr b2 \<Rightarrow>
          Inr \<lparr>params = [(''W1'', W1), (''W2'', W2), (''b1'', b1), (''b2'', b2)],
               reg = rg\<rparr>))))"

text \<open>The gradient part of \<open>TwoLayerNet.loss\<close>, after the loss value has been computed.\<close>

definition TwoLayerNet_grads ::
  "'c layers \<Rightarrow> two_layer_net \<Rightarrow> ndarray \<Rightarrow> 'c \<Rightarrow> 'c \<Rightarrow> error + ndarray dict" where
  "TwoLayerNet_grads L self dout cache_hidden cache_output =
     (case affine_backward L dout cache_output of
        Inl e \<Rightarrow> Inl e
      | Inr (dhidden, dW2, db2) \<Rightarrow>
     (case dict_get (params self) ''W2'' of
        Inl e \<Rightarrow> Inl e
      | Inr W2 \<Rightarrow>
     (case np_add dW2 (np_scale (reg self) W2) of
        Inl e \<Rightarrow> Inl e
      | Inr gW2 \<Rightarrow>
     (case affine_relu_backward L dhidden cache_hidden of
        Inl e \<Rightarrow> Inl e
      | Inr (dx, dW1, db1) \<Rightarrow>
     (case dict_get (params self) ''W1'' of
        Inl e \<Rightarrow> Inl e
      | Inr W1 \<Rightarrow>
     (case np_add dW1 (np_scale (reg self) W1) of
        Inl e \<Rightarrow> Inl e
      | Inr gW1 \<Rightarrow>
          Inr (AList.update ''b1'' db1 (AList.update ''W1'' gW1
                (AList.update ''b2'' db2 (AList.update ''W2'' gW2 []))))))))))"

text \<open>
  The forward part of \<open>TwoLayerNet.loss\<close>: \<open>scores\<close> and the two caches.
\<close>

definition TwoLayerNet_forward ::
  "'c layers \<Rightarrow> two_layer_net \<Rightarrow> ndarray \<Rightarrow> error + (ndarray \<times> 'c \<times> 'c)" where
  "TwoLayerNet_forward L self X =
     (case dict_get (params self) ''W1'' of
        Inl e \<Rightarrow> Inl e
      | Inr W1 \<Rightarrow>
     (case dict_get (params self) ''b1'' of
        Inl e \<Rightarrow> Inl e
      | Inr b1 \<Rightarrow>
     (case affine_relu_forward L X W1 b1 of
        Inl e \<Rightarrow> Inl e
      | Inr (hidden_layer_out, cache_hidden) \<Rightarrow>
     (case dict_get (params self) ''W2'' of
        Inl e \<Rightarrow> Inl e
      | Inr W2 \<Rightarrow>
     (case dict_get (params self) ''b2'' of
        Inl e \<Rightarrow> Inl e
      | Inr b2 \<Rightarrow>
     (case affine_forward L hidden_layer_out W2 b2 of
        Inl e \<Rightarrow> Inl e
      | Inr (scores, cache_output) \<Rightarrow> Inr (scores, cache_hidden, cache_output)))))))"

text \<open>
  \<open>TwoLayerNet.loss\<close>. It returns its result together with the object after the call; every
  \<open>raise\<close> of a dictionary read, a numpy operation or a collaborator is an \<open>Inl\<close>.
\<close>

definition TwoLayerNet_loss ::
  "'c layers \<Rightarrow> two_layer_net \<Rightarrow> ndarray \<Rightarrow> int list option \<Rightarrow> (error + loss_out) \<times> two_layer_net"
  where
  "TwoLayerNet_loss L self X y =
     ((case TwoLayerNet_forward L self X of
         Inl e \<Rightarrow> Inl e
       | Inr (scores, cache_hidden, cache_output) \<Rightarrow>
      (case y of
         None \<Rightarrow> Inr (Scores scores)
       | Some labels \<Rightarrow>
      (case dict_get (params self) ''W1'' of
         Inl e \<Rightarrow> Inl e
       | Inr W1 \<Rightarrow>
      (case np_linalg_norm_fro W1 of
         Inl e \<Rightarrow> Inl e
       | Inr n1 \<Rightarrow>
      (case dict_get (params self) ''W2'' of
         Inl e \<Rightarrow> Inl e
       | Inr W2 \<Rightarrow>
      (case np_linalg_norm_fro W2 of
         Inl e \<Rightarrow> Inl e
       | Inr n2 \<Rightarrow>
      (case softmax_loss L (Some scores) labels of
         Inl e \<Rightarrow> Inl e
       | Inr (softmax, dout) \<Rightarrow>
      (case TwoLayerNet_grads L self dout cache_hidden cache_output of
         Inl e \<Rightarrow> Inl e
       | Inr grads \<Rightarrow>
           Inr (LossGrads (softmax + reg self * 0.5 * (n1\<^sup>2 + n2\<^sup>2)) grads))))))))),
      self)"

section \<open>\<open>FullyConnectedNet\<close>\<close>

subsection \<open>\<open>__init__\<close>\<close>

text \<open>
  The shape tuple of \<open>W{index}\<close>, which Python evaluates before it calls
  \<open>np.random.normal\<close>: the \<open>if index == 1\<close> branch comes first, then \<open>elif index ==
  self.num_layers\<close>, then the intermediate layers.
\<close>

definition weight_dims :: "int list \<Rightarrow> int \<Rightarrow> int \<Rightarrow> nat \<Rightarrow> nat \<Rightarrow> error + (int \<times> int)" where
  "weight_dims hidden_dims input_dim num_classes nl index =
     (if index = 1 then
        (case py_index hidden_dims (int index - 1) of
           Inl e \<Rightarrow> Inl e
         | Inr h \<Rightarrow> Inr (input_dim, h))
      else if index = nl then
        (case py_index hidden_dims (int index - 2) of
           Inl e \<Rightarrow> Inl e
         | Inr h \<Rightarrow> Inr (h, num_classes))
      else
        (case py_index hidden_dims (int index - 2) of
           Inl e \<Rightarrow> Inl e
         | Inr h1 \<Rightarrow>
        (case py_index hidden_dims (int index - 1) of
           Inl e \<Rightarrow> Inl e
         | Inr h2 \<Rightarrow> Inr (h1, h2))))"

text \<open>The length of \<open>b{index}\<close>: here the test \<open>index == self.num_layers\<close> comes first.\<close>

definition bias_dim :: "int list \<Rightarrow> int \<Rightarrow> nat \<Rightarrow> nat \<Rightarrow> error + int" where
  "bias_dim hidden_dims num_classes nl index =
     (if index = nl then Inr num_classes else py_index hidden_dims (int index - 1))"

text \<open>The loop \<open>for index in range(1, self.num_layers + 1)\<close> that fills \<open>self.params\<close>.\<close>

fun init_params ::
  "(nat \<Rightarrow> real) \<Rightarrow> int list \<Rightarrow> int \<Rightarrow> int \<Rightarrow> real \<Rightarrow> nat \<Rightarrow> nat list \<Rightarrow> nat \<Rightarrow> ndarray dict
     \<Rightarrow> error + ndarray dict" where
  "init_params rng hidden_dims input_dim num_classes weight_scale nl [] k ps = Inr ps"
| "init_params rng hidden_dims input_dim num_classes weight_scale nl (index # rest) k ps =
     (case weight_dims hidden_dims input_dim num_classes nl index of
        Inl e \<Rightarrow> Inl e
      | Inr dims \<Rightarrow>
     (case np_random_normal rng k 0 weight_scale dims of
        Inl e \<Rightarrow> Inl e
      | Inr (w, k') \<Rightarrow>
     (case bias_dim hidden_dims num_classes nl index of
        Inl e \<Rightarrow> Inl e
      | Inr n \<Rightarrow>
     (case np_zeros n of
        Inl e \<Rightarrow> Inl e
      | Inr b \<Rightarrow>
          init_params rng hidden_dims input_dim num_classes weight_scale nl rest k'
            (AList.update (key_b index) b (AList.update (key_W index) w ps))))))"

text \<open>The loop \<open>for k, v in self.params.items(): self.params[k] = v.astype(dtype)\<close>.\<close>

definition cast_params :: "(real \<Rightarrow> real) \<Rightarrow> ndarray dict \<Rightarrow> ndarray dict" where
  "cast_params dt ps = foldl (\<lambda>d (k, v). AList.update k (astype dt v) d) ps ps"

text \<open>
  \<open>FullyConnectedNet.__init__\<close>. \<open>dropout_param\<close> is always a dictionary; the model keeps
  it as an option so that the test \<open>is not None\<close> in \<open>loss\<close> is a branch.
\<close>

definition FullyConnectedNet_init ::
  "(nat \<Rightarrow> real) \<Rightarrow> int list \<Rightarrow> int \<Rightarrow> int \<Rightarrow> real \<Rightarrow> bool \<Rightarrow> real \<Rightarrow> real \<Rightarrow> (real \<Rightarrow> real)
     \<Rightarrow> int option \<Rightarrow> error + net" where
  "FullyConnectedNet_init rng hidden_dims input_dim num_classes dropout ub rg weight_scale dt seed =
     (let nl = 1 + length hidden_dims
      in case init_params rng hidden_dims input_dim num_classes weight_scale nl
                (py_range 1 (nl + 1)) 0 [] of
           Inl e \<Rightarrow> Inl e
         | Inr ps \<Rightarrow>
             let ud = (dropout > 0);
                 dp0 = [(''mode'', PyStr ''train''), (''p'', PyFloat dropout)];
                 dp = (if ud
                       then (case seed of
                               None \<Rightarrow> dp0
                             | Some sd \<Rightarrow> AList.update ''seed'' (PyInt sd) dp0)
                       else []);
                 bps = (if ub
                        then map (\<lambda>i. [(''mode'', PyStr ''train'')]) (py_range 0 (nl - 1))
                        else [])
             in Inr \<lparr>params = cast_params dt ps, reg = rg, use_batchnorm = ub,
                     use_dropout = ud, num_layers = nl, dtype = dt,
                     dropout_param = Some dp, bn_params = bps\<rparr>)"

subsection \<open>\<open>loss\<close>\<close>

text \<open>
  The forward loop. Its state is \<open>output\<close>, \<open>scores\<close> (initially \<open>None\<close>) and \<open>cache_list\<close>.
  Both branches of \<open>if index != self.num_layers\<close> read \<open>W{index}\<close> and then \<open>b{index}\<close> before
  they call their primitive, so the two reads are written once, ahead of the test.
\<close>

fun forward_loop ::
  "'c layers \<Rightarrow> ndarray dict \<Rightarrow> nat \<Rightarrow> nat list \<Rightarrow> ndarray \<Rightarrow> ndarray option \<Rightarrow> 'c list
     \<Rightarrow> error + (ndarray \<times> ndarray option \<times> 'c list)" where
  "forward_loop L ps nl [] output scores cache_list = Inr (output, scores, cache_list)"
| "forward_loop L ps nl (index # rest) output scores cache_list =
     (case dict_get ps (key_W index) of
        Inl e \<Rightarrow> Inl e
      | Inr w \<Rightarrow>
     (case dict_get ps (key_b index) of
        Inl e \<Rightarrow> Inl e
      | Inr b \<Rightarrow>
          if index \<noteq> nl then
            (case affine_relu_forward L output w b of
               Inl e \<Rightarrow> Inl e
             | Inr (out, cache) \<Rightarrow>
                 forward_loop L ps nl rest out scores (cache_list @ [cache]))
          else
            (case affine_forward L output w b of
               Inl e \<Rightarrow> Inl e
             | Inr (sc, cache) \<Rightarrow>
                 forward_loop L ps nl rest output (Some sc) (cache_list @ [cache]))))"

text \<open>The list comprehension \<open>regularization_norms\<close>.\<close>

fun regularization_norms :: "ndarray dict \<Rightarrow> nat list \<Rightarrow> error + real list" where
  "regularization_norms ps [] = Inr []"
| "regularization_norms ps (index # rest) =
     (case dict_get ps (key_W index) of
        Inl e \<Rightarrow> Inl e
      | Inr w \<Rightarrow>
     (case np_linalg_norm_fro w of
        Inl e \<Rightarrow> Inl e
      | Inr n \<Rightarrow>
     (case regularization_norms ps rest of
        Inl e \<Rightarrow> Inl e
      | Inr ns \<Rightarrow> Inr (n\<^sup>2 # ns))))"

text \<open>
  The backward loop over \<open>reversed(range(1, self.num_layers + 1))\<close>. Its state is \<open>dout\<close> and
  \<open>grads\<close>.
\<close>

fun backward_loop ::
  "'c layers \<Rightarrow> ndarray dict \<Rightarrow> real \<Rightarrow> nat \<Rightarrow> 'c list \<Rightarrow> nat list \<Rightarrow> ndarray \<Rightarrow> ndarray dict
     \<Rightarrow> error + ndarray dict" where
  "backward_loop L ps rg nl cache_list [] dout grads = Inr grads"
| "backward_loop L ps rg nl cache_list (index # rest) dout grads =
     (case py_index cache_list (int index - 1) of
        Inl e \<Rightarrow> Inl e
      | Inr cache \<Rightarrow>
     (case (if index = nl then affine_backward L dout cache
            else affine_relu_backward L dout cache) of
        Inl e \<Rightarrow> Inl e
      | Inr (dout', dW, db) \<Rightarrow>
     (case dict_get ps (key_W index) of
        Inl e \<Rightarrow> Inl e
      | Inr w \<Rightarrow>
     (case np_add dW (np_scale rg w) of
        Inl e \<Rightarrow> Inl e
      | Inr gW \<Rightarrow>
          backward_loop L ps rg nl cache_list rest dout'
            (AList.update (key_b index) db (AList.update (key_W index) gW grads))))))"

text \<open>
  The part of \<open>loss\<close> after the mode has been written: forward pass (\<open>forward_pass\<close> is the
  loop with its initial state), early return in test mode, loss value and backward pass. It
  reads the object and never writes it.
\<close>

definition forward_pass ::
  "'c layers \<Rightarrow> net \<Rightarrow> ndarray \<Rightarrow> error + (ndarray \<times> ndarray option \<times> 'c list)" where
  "forward_pass L self X =
     forward_loop L (params self) (num_layers self) (py_range 1 (num_layers self + 1)) X None []"

definition loss_body :: "'c layers \<Rightarrow> net \<Rightarrow> ndarray \<Rightarrow> int list option \<Rightarrow> error + loss_out" where
  "loss_body L self X y =
     (case forward_pass L self X of
        Inl e \<Rightarrow> Inl e
      | Inr (output, scores, cache_list) \<Rightarrow>
     (case y of
        None \<Rightarrow> Inr (case scores of None \<Rightarrow> PyNone | Some sc \<Rightarrow> Scores sc)
      | Some labels \<Rightarrow>
     (case softmax_loss L scores labels of
        Inl e \<Rightarrow> Inl e
      | Inr (softmax, dout) \<Rightarrow>
     (case regularization_norms (params self) (py_range 1 (num_layers self + 1)) of
        Inl e \<Rightarrow> Inl e
      | Inr norms \<Rightarrow>
     (case backward_loop L (params self) (reg self) (num_layers self) cache_list
             (rev (py_range 1 (num_layers self + 1))) dout [] of
        Inl e \<Rightarrow> Inl e
      | Inr grads \<Rightarrow>
          Inr (LossGrads (softmax + 0.5 * reg self * np_sum norms) grads))))))"

text \<open>
  The mode written at the start of \<open>loss\<close>: under the key \<open>'mode'\<close> of \<open>dropout_param\<close>, and
  under the key named by the mode itself (\<open>bn_param[mode] = mode\<close>) of every \<open>bn_param\<close>.
\<close>

definition set_mode :: "net \<Rightarrow> string \<Rightarrow> net" where
  "set_mode self mode =
     (let self1 = (case dropout_param self of
                     None \<Rightarrow> self
                   | Some d \<Rightarrow> self\<lparr>dropout_param := Some (AList.update ''mode'' (PyStr mode) d)\<rparr>)
      in if use_batchnorm self1
         then self1\<lparr>bn_params := map (AList.update mode (PyStr mode)) (bn_params self1)\<rparr>
         else self1)"

text \<open>
  \<open>FullyConnectedNet.loss\<close>: the result (or the exception raised) and the object after the
  call.
\<close>

definition loss :: "'c layers \<Rightarrow> net \<Rightarrow> ndarray \<Rightarrow> int list option \<Rightarrow> (error + loss_out) \<times> net" where
  "loss L self X y =
     (let X' = astype (dtype self) X;
          mode = (if y = None then ''test'' else ''train'');
          self' = set_mode self mode
      in (loss_body L self' X' y, self'))"

section \<open>Reference points for the properties\<close>

subsection \<open>Sequences of calls\<close>

text \<open>The object after a sequence of \<open>loss\<close> calls, each with its own \<open>X\<close> and \<open>y\<close>.\<close>

definition after_calls :: "'c layers \<Rightarrow> net \<Rightarrow> (ndarray \<times> int list option) list \<Rightarrow> net" where
  "after_calls L self calls = foldl (\<lambda>s (X, y). snd (loss L s X y)) self calls"

subsection \<open>What the specification says of the gradients and of the penalty\<close>

text \<open>
  The squared Frobenius norm of a weight matrix, as the specification writes it: the sum of
  the squares of its entries.
\<close>

definition spec_frobenius_sq :: "ndarray \<Rightarrow> real" where
  "spec_frobenius_sq a = (\<Sum>x\<leftarrow>data a. x\<^sup>2)"

text \<open>
  The backward step of layer \<open>i\<close>, as the specification describes the backward pass: layer
  \<open>L\<close> is affine-backward on \<open>dscores\<close>; a layer below it is affine-ReLU-backward on the
  input gradient of the layer above; each step consumes the cache of the matching forward
  step. The result is \<open>(d_input, dW_i, db_i)\<close>.
\<close>

function spec_layer_backward ::
  "'c layers \<Rightarrow> nat \<Rightarrow> 'c list \<Rightarrow> ndarray \<Rightarrow> nat \<Rightarrow> error + (ndarray \<times> ndarray \<times> ndarray)"
  where
  "spec_layer_backward L nl caches dscores i =
     (if nl \<le> i then affine_backward L dscores (caches ! (i - 1))
      else (case spec_layer_backward L nl caches dscores (Suc i) of
              Inl e \<Rightarrow> Inl e
            | Inr (dx, dW, db) \<Rightarrow> affine_relu_backward L dx (caches ! (i - 1))))"
  by pat_completeness auto
termination
  by (relation "measure (\<lambda>(L, nl, caches, dscores, i). nl - i)") auto

declare spec_layer_backward.simps [simp del]

subsection \<open>What the specification says of the parameter shapes\<close>

text \<open>
  The fan sizes of a configuration, in order: \<open>input_dim\<close>, the hidden widths, \<open>num_classes\<close>.
  Layer \<open>i\<close> maps width \<open>i - 1\<close> of this list to width \<open>i\<close>.
\<close>

definition layer_dims :: "int list \<Rightarrow> int \<Rightarrow> int \<Rightarrow> nat list" where
  "layer_dims hidden_dims input_dim num_classes = map nat (input_dim # hidden_dims @ [num_classes])"

text \<open>
  Layer \<open>i\<close> is present with the shapes the specification gives: \<open>W{i}\<close> of shape
  \<open>(fan_in_i, fan_out_i)\<close> and \<open>b{i}\<close> of shape \<open>(fan_out_i,)\<close>.
\<close>

definition spec_layer_shapes :: "nat list \<Rightarrow> ndarray dict \<Rightarrow> nat \<Rightarrow> bool" where
  "spec_layer_shapes dims ps i \<longleftrightarrow>
     (\<exists>w b. map_of ps (key_W i) = Some w \<and> shape w = [dims ! (i - 1), dims ! i]
          \<and> map_of ps (key_b i) = Some b \<and> shape b = [dims ! i])"

subsection \<open>The interface of the layer primitives\<close>

text \<open>
  Modelled from the spec: the code of the layer primitives (\<open>deeplearning/layers.py\<close>,
  \<open>deeplearning/layer_utils.py\<close>) is not among the sources. The specification gives them the
  interface \<open>forward(x, W, b) -> (y, cache)\<close> with \<open>y = xW + b\<close>, for \<open>x\<close> of shape
  \<open>(N, d_1, ..., d_k)\<close>, \<open>W\<close> of shape \<open>(d_1 * ... * d_k, M)\<close> and \<open>b\<close> of shape \<open>(M,)\<close>: on such
  arguments, with a non-empty batch, a forward primitive returns an array of shape
  \<open>(N, M)\<close>.
\<close>

definition forward_contract :: "(ndarray \<Rightarrow> ndarray \<Rightarrow> ndarray \<Rightarrow> error + (ndarray \<times> 'c)) \<Rightarrow> bool"
  where
  "forward_contract f \<longleftrightarrow>
     (\<forall>x w b n ds m.
        0 < n \<and> shape x = n # ds \<and> shape w = [prod_list ds, m] \<and> shape b = [m]
        \<longrightarrow> (\<exists>out c. f x w b = Inr (out, c) \<and> shape out = [n, m]))"

text \<open>
  Modelled from the spec: \<open>backward(dy, cache) -> (dx, dW, db)\<close>, where a gradient has the
  shape of the parameter it belongs to: on the cache of a forward call with \<open>W\<close> and \<open>b\<close>,
  the backward primitive returns \<open>dW\<close> of the shape of \<open>W\<close> and \<open>db\<close> of the shape of \<open>b\<close>.
\<close>

definition backward_contract ::
  "(ndarray \<Rightarrow> ndarray \<Rightarrow> ndarray \<Rightarrow> error + (ndarray \<times> 'c))
     \<Rightarrow> (ndarray \<Rightarrow> 'c \<Rightarrow> error + (ndarray \<times> ndarray \<times> ndarray)) \<Rightarrow> bool" where
  "backward_contract f g \<longleftrightarrow>
     (\<forall>x w b out c dout dx dw db.
        f x w b = Inr (out, c) \<and> g dout c = Inr (dx, dw, db)
        \<longrightarrow> shape dw = shape w \<and> shape db = shape b)"

subsection \<open>One implementation of the interface\<close>

text \<open>
  Modelled from the spec: the missing layer primitives, written out from the glossary
  (\<open>y = xW + b\<close>, ReLU as \<open>max(0, x)\<close>, softmax loss as the mean negative log-likelihood of
  the correct class) for arguments of the documented shapes; any other shape is rejected
  with \<open>ValueError\<close>, a cache of the wrong kind with \<open>TypeError\<close>, a label outside
  \<open>[0, num_classes)\<close> with \<open>IndexError\<close>. They only serve as concrete collaborators at
  which the properties below are evaluated.
\<close>

datatype cache =
  AffineCache ndarray ndarray ndarray
| AffineReluCache ndarray ndarray ndarray ndarray

definition ref_affine_forward :: "ndarray \<Rightarrow> ndarray \<Rightarrow> ndarray \<Rightarrow> error + (ndarray \<times> cache)" where
  "ref_affine_forward x w b =
     (if shape x \<noteq> [] \<and> length (shape w) = 2 \<and> prod_list (tl (shape x)) = shape w ! 0
         \<and> shape b = [shape w ! 1]
      then let n = hd (shape x); d = shape w ! 0; m = shape w ! 1
           in Inr (\<lparr>shape = [n, m],
                    data = concat (map (\<lambda>i. map (\<lambda>j.
                             (\<Sum>k\<leftarrow>[0 ..< d]. data x ! (i * d + k) * data w ! (k * m + j))
                               + data b ! j) [0 ..< m]) [0 ..< n])\<rparr>,
                   AffineCache x w b)
      else Inl ValueError)"

definition ref_affine_backward :: "ndarray \<Rightarrow> cache \<Rightarrow> error + (ndarray \<times> ndarray \<times> ndarray)" where
  "ref_affine_backward dout c =
     (case c of
        AffineReluCache x w b a \<Rightarrow> Inl TypeError
      | AffineCache x w b \<Rightarrow>
          let n = hd (shape x); d = shape w ! 0; m = shape w ! 1
          in if shape dout = [n, m]
             then Inr (\<lparr>shape = shape x,
                        data = concat (map (\<lambda>i. map (\<lambda>k.
                                 (\<Sum>j\<leftarrow>[0 ..< m]. data dout ! (i * m + j) * data w ! (k * m + j)))
                                 [0 ..< d]) [0 ..< n])\<rparr>,
                       \<lparr>shape = shape w,
                        data = concat (map (\<lambda>k. map (\<lambda>j.
                                 (\<Sum>i\<leftarrow>[0 ..< n]. data x ! (i * d + k) * data dout ! (i * m + j)))
                                 [0 ..< m]) [0 ..< d])\<rparr>,
                       \<lparr>shape = shape b,
                        data = map (\<lambda>j. (\<Sum>i\<leftarrow>[0 ..< n]. data dout ! (i * m + j))) [0 ..< m]\<rparr>)
             else Inl ValueError)"

definition ref_affine_relu_forward ::
  "ndarray \<Rightarrow> ndarray \<Rightarrow> ndarray \<Rightarrow> error + (ndarray \<times> cache)" where
  "ref_affine_relu_forward x w b =
     (case ref_affine_forward x w b of
        Inl e \<Rightarrow> Inl e
      | Inr (a, fc_cache) \<Rightarrow>
          Inr (\<lparr>shape = shape a, data = map (max 0) (data a)\<rparr>, AffineReluCache x w b a))"

definition ref_affine_relu_backward ::
  "ndarray \<Rightarrow> cache \<Rightarrow> error + (ndarray \<times> ndarray \<times> ndarray)" where
  "ref_affine_relu_backward dout c =
     (case c of
        AffineCache x w b \<Rightarrow> Inl TypeError
      | AffineReluCache x w b a \<Rightarrow>
          if shape dout = shape a
          then ref_affine_backward
                 \<lparr>shape = shape dout,
                  data = map2 (\<lambda>g v. if 0 < v then g else 0) (data dout) (data a)\<rparr>
                 (AffineCache x w b)
          else Inl ValueError)"

definition ref_softmax_loss :: "ndarray option \<Rightarrow> int list \<Rightarrow> error + (real \<times> ndarray)" where
  "ref_softmax_loss scores y =
     (case scores of
        None \<Rightarrow> Inl TypeError
      | Some s \<Rightarrow>
          if length (shape s) = 2 \<and> length y = shape s ! 0 \<and> 0 < shape s ! 0
          then let n = shape s ! 0; c = shape s ! 1;
                   p = (\<lambda>i j. exp (data s ! (i * c + j))
                               / (\<Sum>k\<leftarrow>[0 ..< c]. exp (data s ! (i * c + k))))
               in if list_all (\<lambda>l. 0 \<le> l \<and> l < int c) y
                  then Inr ((\<Sum>i\<leftarrow>[0 ..< n]. - ln (p i (nat (y ! i)))) / real n,
                            \<lparr>shape = [n, c],
                             data = concat (map (\<lambda>i. map (\<lambda>j.
                                      (p i j - (if int j = y ! i then 1 else 0)) / real n)
                                      [0 ..< c]) [0 ..< n])\<rparr>)
                  else Inl IndexError
          else Inl ValueError)"

definition reference_layers :: "cache layers" where
  "reference_layers =
     \<lparr>affine_forward = ref_affine_forward, affine_backward = ref_affine_backward,
      affine_relu_forward = ref_affine_relu_forward,
      affine_relu_backward = ref_affine_relu_backward, softmax_loss = ref_softmax_loss\<rparr>"

text \<open>A generator whose every draw is 0, and the precision that rounds nothing.\<close>

definition zero_rng :: "nat \<Rightarrow> real" where
  "zero_rng i = 0"

definition exact :: "real \<Rightarrow> real" where
  "exact x = x"

text \<open>
  A network with one hidden layer, an input batch with one row and its label, at which the
  properties are evaluated; the same parameters serve for a \<open>TwoLayerNet\<close>.
\<close>

definition example_net :: net where
  "example_net =
     \<lparr>params =
        [(''W1'', \<lparr>shape = [2, 2], data = [1, 0, 0, 1]\<rparr>),
         (''b1'', \<lparr>shape = [2], data = [0, 0]\<rparr>),
         (''W2'', \<lparr>shape = [2, 2], data = [1, 1, 0, 1]\<rparr>),
         (''b2'', \<lparr>shape = [2], data = [0, 0]\<rparr>)],
      reg = 1 / 2, use_batchnorm = False, use_dropout = False, num_layers = 2,
      dtype = exact, dropout_param = Some [], bn_params = []\<rparr>"

definition example_two_layer_net :: two_layer_net where
  "example_two_layer_net =
     \<lparr>params =
        [(''W1'', \<lparr>shape = [2, 2], data = [1, 0, 0, 1]\<rparr>),
         (''W2'', \<lparr>shape = [2, 2], data = [1, 1, 0, 1]\<rparr>),
         (''b1'', \<lparr>shape = [2], data = [0, 0]\<rparr>),
         (''b2'', \<lparr>shape = [2], data = [0, 0]\<rparr>)],
      reg = 1 / 2\<rparr>"

definition example_X :: ndarray where
  "example_X = \<lparr>shape = [1, 2], data = [1, 2]\<rparr>"

definition example_y :: "int list" where
  "example_y = [0]"

section \<open>Properties\<close>

subsection \<open>What \<open>loss\<close> reads and what it writes\<close>

lemma set_mode_frame:
  "params (set_mode self m) = params self"
  "num_layers (set_mode self m) = num_layers self"
  "reg (set_mode self m) = reg self"
  "dtype (set_mode self m) = dtype self"
  "use_batchnorm (set_mode self m) = use_batchnorm self"
  "use_dropout (set_mode self m) = use_dropout self"
  by (simp_all add: set_mode_def Let_def split: option.splits)

lemma forward_pass_reads:
  "params a = params b \<Longrightarrow> num_layers a = num_layers b
     \<Longrightarrow> forward_pass L a X = forward_pass L b X"
  by (simp add: forward_pass_def)

lemma loss_body_reads:
  assumes "params a = params b" and "num_layers a = num_layers b" and "reg a = reg b"
  shows "loss_body L a X y = loss_body L b X y"
proof -
  have fwd: "forward_pass L a X = forward_pass L b X"
    using assms(1,2) by (rule forward_pass_reads)
  show ?thesis
    unfolding loss_body_def fwd assms by (rule refl)
qed

text \<open>
  C1. With \<open>hidden_dims = []\<close> the only layer has \<open>index = 1\<close>, and the branch \<open>if index == 1\<close>
  reads \<open>hidden_dims[0]\<close> before \<open>elif index == self.num_layers\<close> is ever tested: whatever
  the other arguments are, the constructor raises \<open>IndexError\<close> and no network is built.
\<close>

theorem init_empty_hidden_dims_raises:
  "FullyConnectedNet_init rng [] input_dim num_classes dropout ub rg weight_scale dt seed
     = Inl IndexError"
  by (simp add: FullyConnectedNet_init_def py_range_def weight_dims_def py_index_def)

text \<open>
  C7. A call of \<open>loss\<close> leaves \<open>self.params\<close> as it was, in test mode and in training mode,
  whether it returns or raises: for \<open>FullyConnectedNet\<close> the object after the call has the
  same parameter dictionary, and for \<open>TwoLayerNet\<close> the whole object is unchanged. The
  collaborators are functions of their arguments here, so they are taken not to write into
  the arrays they are given.
\<close>

theorem loss_keeps_params:
  "params (snd (loss L self X y)) = params self
     \<and> snd (TwoLayerNet_loss L self2 X y) = self2"
  by (simp add: loss_def Let_def set_mode_frame TwoLayerNet_loss_def)

text \<open>
  C9. Two calls of \<open>loss\<close> in a row with the same \<open>X\<close> and \<open>y\<close> return the same result (the
  same scores, or the same loss value and the same gradients, or the same exception): the
  mode entries written by the first call are not read by the second one. The collaborators
  are functions of their arguments, and \<open>loss\<close> draws no random numbers itself.
\<close>

theorem loss_deterministic:
  "fst (loss L (snd (loss L self X y)) X y) = fst (loss L self X y)"
proof -
  let ?m = "if y = None then ''test'' else ''train''"
  have "loss_body L (set_mode (set_mode self ?m) ?m) (astype (dtype self) X) y
          = loss_body L (set_mode self ?m) (astype (dtype self) X) y"
    by (rule loss_body_reads) (simp_all add: set_mode_frame)
  then show ?thesis
    by (simp add: loss_def Let_def set_mode_frame)
qed

subsection \<open>Parameter names are distinct\<close>

lemma digit_char_inj:
  assumes "d < 10" and "e < 10" and "digit_char d = digit_char e"
  shows "d = e"
proof -
  have D: "d \<in> {0, 1, 2, 3, 4, 5, 6, 7, 8, 9}" using assms(1) by auto
  have E: "e \<in> {0, 1, 2, 3, 4, 5, 6, 7, 8, 9}" using assms(2) by auto
  show ?thesis using D E assms(3) by (auto simp: digit_char_def)
qed

lemma py_str_nonempty: "py_str n \<noteq> []"
  by (subst py_str.simps) simp

lemma py_str_small: "n < 10 \<Longrightarrow> py_str n = [digit_char n]"
  by (subst py_str.simps) simp

lemma py_str_large: "\<not> n < 10 \<Longrightarrow> py_str n = py_str (n div 10) @ [digit_char (n mod 10)]"
  by (subst py_str.simps) simp

lemma py_str_inj: "py_str n = py_str m \<Longrightarrow> n = m"
proof (induction n arbitrary: m rule: py_str.induct)
  case (1 n)
  show ?case
  proof (cases "n < 10")
    case nS: True
    show ?thesis
    proof (cases "m < 10")
      case True
      with nS "1.prems" have "digit_char n = digit_char m"
        by (simp add: py_str_small)
      then show ?thesis using nS True digit_char_inj by blast
    next
      case False
      with nS "1.prems" have "py_str (m div 10) = []"
        by (simp add: py_str_small py_str_large)
      then show ?thesis using py_str_nonempty by blast
    qed
  next
    case nL: False
    show ?thesis
    proof (cases "m < 10")
      case True
      with nL "1.prems" have "py_str (n div 10) = []"
        by (simp add: py_str_small py_str_large)
      then show ?thesis using py_str_nonempty by blast
    next
      case False
      with nL "1.prems" have hi: "py_str (n div 10) = py_str (m div 10)"
        and lo: "digit_char (n mod 10) = digit_char (m mod 10)"
        by (simp_all add: py_str_large)
      from "1.IH" [OF nL hi] have "n div 10 = m div 10" .
      moreover from lo have "n mod 10 = m mod 10"
        by (intro digit_char_inj) simp_all
      ultimately show ?thesis by (metis div_mult_mod_eq)
    qed
  qed
qed

lemma key_W_eq [simp]: "key_W i = key_W j \<longleftrightarrow> i = j"
  by (auto simp: key_W_def dest: py_str_inj)

lemma key_b_eq [simp]: "key_b i = key_b j \<longleftrightarrow> i = j"
  by (auto simp: key_b_def dest: py_str_inj)

lemma key_W_neq_b [simp]: "key_W i \<noteq> key_b j" "key_b j \<noteq> key_W i"
  by (simp_all add: key_W_def key_b_def)

lemma key_Suc:
  "key_W (Suc 0) = ''W1''" "key_b (Suc 0) = ''b1''"
  "key_W (Suc (Suc 0)) = ''W2''" "key_b (Suc (Suc 0)) = ''b2''"
  by (simp_all add: key_W_def key_b_def py_str.simps digit_char_def)

subsection \<open>A constructed network with one hidden layer\<close>

lemmas init_eval =
  FullyConnectedNet_init_def py_range_def upt_rec weight_dims_def bias_dim_def py_index_def
  np_random_normal_def np_zeros_def key_Suc Let_def cast_params_def astype_def

lemma init_example:
  "FullyConnectedNet_init rng [2] 2 2 dropout ub rg (1/100) dt seed =
     Inr \<lparr>params =
            [(''W1'', \<lparr>shape = [2, 2], data = map (\<lambda>i. dt (1 / 100 * rng i)) [0, 1, 2, 3]\<rparr>),
             (''b1'', \<lparr>shape = [2], data = [dt 0, dt 0]\<rparr>),
             (''W2'', \<lparr>shape = [2, 2], data = map (\<lambda>i. dt (1 / 100 * rng i)) [4, 5, 6, 7]\<rparr>),
             (''b2'', \<lparr>shape = [2], data = [dt 0, dt 0]\<rparr>)],
          reg = rg, use_batchnorm = ub, use_dropout = (0 < dropout), num_layers = 2,
          dtype = dt,
          dropout_param =
            Some (if 0 < dropout
                  then (case seed of
                          None \<Rightarrow> [(''mode'', PyStr ''train''), (''p'', PyFloat dropout)]
                        | Some sd \<Rightarrow> [(''mode'', PyStr ''train''), (''p'', PyFloat dropout),
                                       (''seed'', PyInt sd)])
                  else []),
          bn_params = (if ub then [[(''mode'', PyStr ''train'')]] else [])\<rparr>"
  by (simp add: init_eval eval_nat_numeral split: option.splits)

subsection \<open>Dropout, batch normalization and the mode\<close>

text \<open>
  C2. \<open>FullyConnectedNet([2], input_dim=2, num_classes=2, dropout=0.5, use_batchnorm=True)\<close>
  is constructed with \<open>use_dropout\<close> and \<open>use_batchnorm\<close> set, and yet, for every choice of
  the collaborators and every input \<open>X\<close>, its forward pass is \<open>affine_relu_forward\<close> on
  \<open>(X, W1, b1)\<close> followed by \<open>affine_forward\<close> on \<open>(hidden, W2, b2)\<close> and nothing else:
  neither \<open>dropout_param\<close> nor \<open>bn_params\<close> reaches any primitive, and no dropout or
  batch-normalization primitive is called between the affine transform and the ReLU (or
  anywhere).
\<close>

theorem loss_ignores_dropout_and_batchnorm:
  "\<exists>self W1 b1 W2 b2.
     FullyConnectedNet_init rng [2] 2 2 (1/2) True 0 (1/100) dt None = Inr self
     \<and> use_dropout self \<and> use_batchnorm self
     \<and> params self = [(''W1'', W1), (''b1'', b1), (''W2'', W2), (''b2'', b2)]
     \<and> fst (loss L self X None)
         = (case affine_relu_forward L (astype dt X) W1 b1 of
              Inl e \<Rightarrow> Inl e
            | Inr (h, c1) \<Rightarrow>
                (case affine_forward L h W2 b2 of
                   Inl e \<Rightarrow> Inl e
                 | Inr (sc, c2) \<Rightarrow> Inr (Scores sc)))"
  by (simp add: init_example loss_def Let_def set_mode_frame loss_body_def forward_pass_def
      py_range_def upt_rec dict_get_def key_Suc split: sum.splits prod.splits)

text \<open>
  C3. For \<open>FullyConnectedNet([2], input_dim=2, num_classes=2, use_batchnorm=True)\<close> a call
  \<open>loss(X)\<close> without labels leaves the value under the key \<open>'mode'\<close> of the \<open>bn_param\<close>
  dictionary at \<open>'train'\<close>: the assignment \<open>bn_param[mode] = mode\<close> adds the key \<open>'test'\<close>
  instead of setting \<open>'mode'\<close> to \<open>'test'\<close>.
\<close>

theorem loss_leaves_bn_mode_train:
  "\<exists>self. FullyConnectedNet_init rng [2] 2 2 0 True 0 (1/100) dt None = Inr self
     \<and> use_batchnorm self
     \<and> bn_params self = [[(''mode'', PyStr ''train'')]]
     \<and> bn_params (snd (loss L self X None))
          = [[(''mode'', PyStr ''train''), (''test'', PyStr ''test'')]]"
  by (simp add: init_example loss_def Let_def set_mode_def)

lemma set_mode_dropout:
  "dropout_param self = Some d \<Longrightarrow>
     dropout_param (set_mode self m) = Some (AList.update ''mode'' (PyStr m) d)"
  by (simp add: set_mode_def Let_def)

lemma init_dropout_not_None:
  "FullyConnectedNet_init rng hidden_dims input_dim num_classes dropout ub rg weight_scale dt seed
     = Inr self \<Longrightarrow> dropout_param self \<noteq> None"
  by (auto simp: FullyConnectedNet_init_def Let_def split: sum.splits)

lemma loss_dropout_not_None:
  "dropout_param self \<noteq> None \<Longrightarrow> dropout_param (snd (loss L self X y)) \<noteq> None"
  by (auto simp: loss_def Let_def set_mode_def)

lemma after_calls_not_None:
  "dropout_param self \<noteq> None \<Longrightarrow> dropout_param (after_calls L self calls) \<noteq> None"
  unfolding after_calls_def
proof (induction calls arbitrary: self)
  case Nil
  then show ?case by simp
next
  case (Cons c calls)
  obtain X y where c: "c = (X, y)" by (cases c)
  have "dropout_param (snd (loss L self X y)) \<noteq> None"
    using Cons.prems by (rule loss_dropout_not_None)
  from Cons.IH [OF this] show ?case by (simp add: c)
qed

text \<open>
  C10. For a network that the constructor has built, with dropout or without, and after any
  number of earlier \<open>loss\<close> calls, a call of \<open>loss\<close> leaves \<open>dropout_param\<close> a dictionary
  whose key \<open>'mode'\<close> holds \<open>'test'\<close> when \<open>y\<close> is \<open>None\<close> and \<open>'train'\<close> otherwise, whether the
  call returns or raises: the constructor never leaves \<open>dropout_param\<close> at \<open>None\<close>, which is
  all the guard in \<open>loss\<close> tests.
\<close>

theorem loss_writes_dropout_mode:
  assumes "FullyConnectedNet_init rng hidden_dims input_dim num_classes dropout ub rg
             weight_scale dt seed = Inr self0"
  shows "\<exists>d. dropout_param (snd (loss L (after_calls L self0 calls) X y)) = Some d
           \<and> map_of d ''mode'' = Some (PyStr (if y = None then ''test'' else ''train''))"
proof -
  from assms have "dropout_param (after_calls L self0 calls) \<noteq> None"
    by (intro after_calls_not_None init_dropout_not_None)
  then obtain d where "dropout_param (after_calls L self0 calls) = Some d" by auto
  then show ?thesis
    by (simp add: loss_def Let_def set_mode_dropout AList.update_conv')
qed

theorem loss_writes_dropout_mode_witness:
  "\<exists>self0. FullyConnectedNet_init zero_rng [2] 2 2 0 False 0 (1/100) exact None = Inr self0
     \<and> use_dropout self0 = False
     \<and> (\<exists>d. dropout_param (snd (loss reference_layers
                 (after_calls reference_layers self0
                    [(\<lparr>shape = [1, 2], data = [1, 2]\<rparr>, Some [0])])
                 \<lparr>shape = [1, 2], data = [1, 2]\<rparr> None)) = Some d
            \<and> map_of d ''mode'' = Some (PyStr ''test''))"
proof -
  obtain self0 where
    s: "FullyConnectedNet_init zero_rng [2] 2 2 0 False 0 (1/100) exact None = Inr self0"
    by (simp add: init_example)
  from s have "use_dropout self0 = False"
    by (auto simp: init_example)
  with loss_writes_dropout_mode [OF s, of reference_layers _ _ None] s show ?thesis
    by auto
qed

subsection \<open>The loss value in training mode\<close>

lemma norm_fro_sq:
  "np_linalg_norm_fro w = Inr n \<Longrightarrow> n\<^sup>2 = spec_frobenius_sq w"
proof -
  have "0 \<le> (\<Sum>x\<leftarrow>data w. x\<^sup>2)"
    by (rule sum_list_nonneg) auto
  then show "np_linalg_norm_fro w = Inr n \<Longrightarrow> n\<^sup>2 = spec_frobenius_sq w"
    by (auto simp: np_linalg_norm_fro_def spec_frobenius_sq_def split: if_splits)
qed

lemma dict_get_Inr: "dict_get d k = Inr v \<longleftrightarrow> map_of d k = Some v"
  by (simp add: dict_get_def split: option.splits)

lemma regularization_norms_spec:
  "regularization_norms ps idxs = Inr norms \<Longrightarrow>
     \<exists>Ws. map (\<lambda>i. map_of ps (key_W i)) idxs = map Some Ws
          \<and> norms = map spec_frobenius_sq Ws"
proof (induction idxs arbitrary: norms)
  case Nil
  then show ?case by simp
next
  case (Cons index rest)
  from Cons.prems obtain w n ns where
    w: "map_of ps (key_W index) = Some w" and n: "np_linalg_norm_fro w = Inr n"
    and ns: "regularization_norms ps rest = Inr ns" and norms: "norms = n\<^sup>2 # ns"
    by (auto simp: dict_get_Inr split: sum.splits)
  from Cons.IH [OF ns] obtain Ws where
    Ws: "map (\<lambda>i. map_of ps (key_W i)) rest = map Some Ws" "ns = map spec_frobenius_sq Ws"
    by blast
  show ?case
    by (rule exI [of _ "w # Ws"]) (simp add: w Ws norms norm_fro_sq [OF n])
qed

lemma loss_train_parts:
  assumes "fst (loss L self X (Some y)) = Inr (LossGrads l g)"
  shows "\<exists>output scores caches softmax dout norms.
     forward_pass L self (astype (dtype self) X) = Inr (output, scores, caches)
     \<and> softmax_loss L scores y = Inr (softmax, dout)
     \<and> regularization_norms (params self) (py_range 1 (num_layers self + 1)) = Inr norms
     \<and> backward_loop L (params self) (reg self) (num_layers self) caches
          (rev (py_range 1 (num_layers self + 1))) dout [] = Inr g
     \<and> l = softmax + 0.5 * reg self * np_sum norms"
proof -
  have fp: "forward_pass L (set_mode self ''train'') (astype (dtype self) X)
      = forward_pass L self (astype (dtype self) X)"
    by (rule forward_pass_reads) (simp_all add: set_mode_frame)
  from assms show ?thesis
    by (auto simp: loss_def Let_def loss_body_def fp set_mode_frame
        split: sum.splits prod.splits)
qed

subsection \<open>The collaborators and inputs used for evaluation\<close>

lemmas ref_eval =
  reference_layers_def ref_affine_forward_def ref_affine_backward_def
  ref_affine_relu_forward_def ref_affine_relu_backward_def ref_softmax_loss_def

lemmas loss_eval =
  loss_def set_mode_def loss_body_def forward_pass_def dict_get_def py_range_def upt_rec
  key_Suc Let_def astype_def np_linalg_norm_fro_def np_sum_def np_scale_def np_add_def
  broadcast_shapes_def broadcast_to_def py_index_def

lemmas example_defs =
  example_net_def example_two_layer_net_def example_X_def example_y_def exact_def

lemma example_train:
  "\<exists>l g. fst (loss reference_layers example_net example_X (Some example_y))
            = Inr (LossGrads l g)"
  by (simp add: example_defs loss_eval ref_eval eval_nat_numeral)

lemma example_two_layer_train:
  "\<exists>l g. fst (TwoLayerNet_loss reference_layers example_two_layer_net example_X (Some example_y))
            = Inr (LossGrads l g)"
  by (simp add: example_defs TwoLayerNet_loss_def TwoLayerNet_forward_def TwoLayerNet_grads_def
      loss_eval ref_eval eval_nat_numeral)

lemma example_test:
  "fst (loss reference_layers example_net example_X None)
     = Inr (Scores \<lparr>shape = [1, 2], data = [1, 3]\<rparr>)"
  by (simp add: example_defs loss_eval ref_eval eval_nat_numeral)

lemma ref_backward_contract:
  "backward_contract ref_affine_forward ref_affine_backward"
  "backward_contract ref_affine_relu_forward ref_affine_relu_backward"
  unfolding backward_contract_def ref_affine_forward_def ref_affine_backward_def
    ref_affine_relu_forward_def ref_affine_relu_backward_def
  by (auto simp: Let_def split: if_splits cache.splits sum.splits prod.splits)

lemma ref_forward_contract:
  "forward_contract ref_affine_forward"
  "forward_contract ref_affine_relu_forward"
  unfolding forward_contract_def ref_affine_forward_def ref_affine_relu_forward_def
  by (auto simp: Let_def)

lemma ref_contracts:
  "backward_contract (affine_forward reference_layers) (affine_backward reference_layers)"
  "backward_contract (affine_relu_forward reference_layers)
     (affine_relu_backward reference_layers)"
  by (simp_all add: reference_layers_def ref_backward_contract)

text \<open>
  C5. When a training call of \<open>loss\<close> returns \<open>(loss, grads)\<close>, the loss value is the value
  that \<open>softmax_loss\<close> returned for the scores of the forward pass plus \<open>reg / 2\<close> times the
  sum, over the weight matrices \<open>W1 .. WL\<close> and nothing else, of their squared Frobenius
  norms (the sum of the squares of their entries); no bias enters the sum. This holds for
  \<open>FullyConnectedNet\<close> and for \<open>TwoLayerNet\<close>. Arithmetic is over the reals.
\<close>

theorem training_loss_value:
  "(fst (loss L self X (Some y)) = Inr (LossGrads l g) \<longrightarrow>
      (\<exists>output scores caches softmax dout Ws.
         forward_pass L self (astype (dtype self) X) = Inr (output, scores, caches)
         \<and> softmax_loss L scores y = Inr (softmax, dout)
         \<and> map (\<lambda>i. map_of (params self) (key_W i)) [1 ..< num_layers self + 1] = map Some Ws
         \<and> l = softmax + (reg self / 2) * (\<Sum>w\<leftarrow>Ws. spec_frobenius_sq w)))
   \<and> (fst (TwoLayerNet_loss L self2 X2 (Some y2)) = Inr (LossGrads l2 g2) \<longrightarrow>
      (\<exists>scores cache_hidden cache_output softmax dout W1 W2.
         TwoLayerNet_forward L self2 X2 = Inr (scores, cache_hidden, cache_output)
         \<and> softmax_loss L (Some scores) y2 = Inr (softmax, dout)
         \<and> map_of (params self2) ''W1'' = Some W1 \<and> map_of (params self2) ''W2'' = Some W2
         \<and> l2 = softmax + (reg self2 / 2) * (spec_frobenius_sq W1 + spec_frobenius_sq W2)))"
proof (intro conjI impI)
  assume "fst (loss L self X (Some y)) = Inr (LossGrads l g)"
  from loss_train_parts [OF this] obtain out scores caches softmax dout norms where
    f: "forward_pass L self (astype (dtype self) X) = Inr (out, scores, caches)"
    and s: "softmax_loss L scores y = Inr (softmax, dout)"
    and r: "regularization_norms (params self) (py_range 1 (num_layers self + 1)) = Inr norms"
    and l: "l = softmax + 0.5 * reg self * np_sum norms"
    by blast
  from regularization_norms_spec [OF r] obtain Ws where
    Ws: "map (\<lambda>i. map_of (params self) (key_W i)) [1 ..< num_layers self + 1] = map Some Ws"
    and n: "norms = map spec_frobenius_sq Ws"
    by (auto simp: py_range_def)
  have "l = softmax + (reg self / 2) * (\<Sum>w\<leftarrow>Ws. spec_frobenius_sq w)"
    by (simp add: l n np_sum_def)
  with f s Ws show "\<exists>output scores caches softmax dout Ws.
         forward_pass L self (astype (dtype self) X) = Inr (output, scores, caches)
         \<and> softmax_loss L scores y = Inr (softmax, dout)
         \<and> map (\<lambda>i. map_of (params self) (key_W i)) [1 ..< num_layers self + 1] = map Some Ws
         \<and> l = softmax + (reg self / 2) * (\<Sum>w\<leftarrow>Ws. spec_frobenius_sq w)"
    by blast
next
  assume a: "fst (TwoLayerNet_loss L self2 X2 (Some y2)) = Inr (LossGrads l2 g2)"
  then obtain scores ch co W1 n1 W2 n2 softmax dout where
    f: "TwoLayerNet_forward L self2 X2 = Inr (scores, ch, co)"
    and W1: "map_of (params self2) ''W1'' = Some W1" and n1: "np_linalg_norm_fro W1 = Inr n1"
    and W2: "map_of (params self2) ''W2'' = Some W2" and n2: "np_linalg_norm_fro W2 = Inr n2"
    and s: "softmax_loss L (Some scores) y2 = Inr (softmax, dout)"
    and l: "l2 = softmax + reg self2 * 0.5 * (n1\<^sup>2 + n2\<^sup>2)"
    by (auto simp: TwoLayerNet_loss_def dict_get_Inr split: sum.splits prod.splits)
  have "l2 = softmax + (reg self2 / 2) * (spec_frobenius_sq W1 + spec_frobenius_sq W2)"
    by (simp add: l norm_fro_sq [OF n1] norm_fro_sq [OF n2])
  with f s W1 W2 show "\<exists>scores cache_hidden cache_output softmax dout W1 W2.
         TwoLayerNet_forward L self2 X2 = Inr (scores, cache_hidden, cache_output)
         \<and> softmax_loss L (Some scores) y2 = Inr (softmax, dout)
         \<and> map_of (params self2) ''W1'' = Some W1 \<and> map_of (params self2) ''W2'' = Some W2
         \<and> l2 = softmax + (reg self2 / 2) * (spec_frobenius_sq W1 + spec_frobenius_sq W2)"
    by blast
qed

theorem training_loss_value_witness:
  "(\<exists>l g. fst (loss reference_layers example_net example_X (Some example_y))
             = Inr (LossGrads l g)
      \<and> (\<exists>out scores caches softmax dout Ws.
         forward_pass reference_layers example_net (astype (dtype example_net) example_X)
           = Inr (out, scores, caches)
         \<and> softmax_loss reference_layers scores example_y = Inr (softmax, dout)
         \<and> map (\<lambda>i. map_of (params example_net) (key_W i)) [1 ..< num_layers example_net + 1]
             = map Some Ws
         \<and> l = softmax + (reg example_net / 2) * (\<Sum>w\<leftarrow>Ws. spec_frobenius_sq w)))
   \<and> (\<exists>l2 g2. fst (TwoLayerNet_loss reference_layers example_two_layer_net example_X
                     (Some example_y)) = Inr (LossGrads l2 g2)
      \<and> (\<exists>scores cache_hidden cache_output softmax dout W1 W2.
         TwoLayerNet_forward reference_layers example_two_layer_net example_X
           = Inr (scores, cache_hidden, cache_output)
         \<and> softmax_loss reference_layers (Some scores) example_y = Inr (softmax, dout)
         \<and> map_of (params example_two_layer_net) ''W1'' = Some W1
         \<and> map_of (params example_two_layer_net) ''W2'' = Some W2
         \<and> l2 = softmax + (reg example_two_layer_net / 2)
                   * (spec_frobenius_sq W1 + spec_frobenius_sq W2)))"
proof -
  obtain l g where a: "fst (loss reference_layers example_net example_X (Some example_y))
             = Inr (LossGrads l g)"
    using example_train by blast
  obtain l2 g2 where b: "fst (TwoLayerNet_loss reference_layers example_two_layer_net example_X
                     (Some example_y)) = Inr (LossGrads l2 g2)"
    using example_two_layer_train by blast
  note t = training_loss_value [of reference_layers example_net example_X example_y l g
      example_two_layer_net example_X example_y l2 g2]
  note 1 = t [THEN conjunct1, THEN mp, OF a]
  note 2 = t [THEN conjunct2, THEN mp, OF b]
  from a 1 b 2 show ?thesis by blast
qed

subsection \<open>The gradients in training mode\<close>

lemma py_index_pred: "py_index xs (int (Suc j) - 1) = Inr c \<Longrightarrow> j < length xs \<and> c = xs ! j"
  by (auto simp: py_index_def split: if_splits)

lemma backward_loop_frame:
  "backward_loop L ps rg nl caches idxs dout grads = Inr g
     \<Longrightarrow> \<forall>i\<in>set idxs. k \<noteq> key_W i \<and> k \<noteq> key_b i
     \<Longrightarrow> map_of g k = map_of grads k"
proof (induction idxs arbitrary: dout grads)
  case Nil
  then show ?case by simp
next
  case (Cons index rest)
  from Cons.prems(1) obtain dout' dW db gW where
    r: "backward_loop L ps rg nl caches rest dout'
          (AList.update (key_b index) db (AList.update (key_W index) gW grads)) = Inr g"
    by (auto split: sum.splits prod.splits)
  from Cons.IH [OF r] Cons.prems(2) show ?case
    by (simp add: AList.update_conv')
qed

lemma backward_loop_keys:
  "backward_loop L ps rg nl caches idxs dout grads = Inr g
     \<Longrightarrow> distinct idxs
     \<Longrightarrow> \<forall>i\<in>set idxs. key_W i \<notin> fst ` set grads \<and> key_b i \<notin> fst ` set grads
     \<Longrightarrow> map fst g = map fst grads @ concat (map (\<lambda>i. [key_W i, key_b i]) idxs)"
proof (induction idxs arbitrary: dout grads)
  case Nil
  then show ?case by simp
next
  case (Cons index rest)
  from Cons.prems(1) obtain dout' dW db gW where
    r: "backward_loop L ps rg nl caches rest dout'
          (AList.update (key_b index) db (AList.update (key_W index) gW grads)) = Inr g"
    by (auto split: sum.splits prod.splits)
  let ?g2 = "AList.update (key_b index) db (AList.update (key_W index) gW grads)"
  have keys2: "map fst ?g2 = map fst grads @ [key_W index, key_b index]"
    using Cons.prems(3) by (simp add: AList.update_keys)
  have "\<forall>i\<in>set rest. key_W i \<notin> fst ` set ?g2 \<and> key_b i \<notin> fst ` set ?g2"
    using Cons.prems(2,3) by (auto simp: AList.dom_update)
  from Cons.IH [OF r _ this] Cons.prems(2) show ?case
    by (simp add: keys2)
qed

lemma rev_upt_Suc: "rev [1 ..< Suc (Suc j)] = Suc j # rev [1 ..< Suc j]"
  by simp

lemma spec_layer_backward_last:
  "spec_layer_backward L nl caches dscores nl = affine_backward L dscores (caches ! (nl - 1))"
  by (subst spec_layer_backward.simps) simp

lemma spec_layer_backward_hidden:
  "i < nl \<Longrightarrow> spec_layer_backward L nl caches dscores (Suc i) = Inr (dx, dW, db)
    \<Longrightarrow> spec_layer_backward L nl caches dscores i = affine_relu_backward L dx (caches ! (i - 1))"
  by (subst spec_layer_backward.simps) simp

lemma backward_loop_values:
  "backward_loop L ps rg nl caches (rev [1 ..< Suc j]) dout grads = Inr g
     \<Longrightarrow> j \<le> nl
     \<Longrightarrow> (if j = nl then dout = dscores
          else \<exists>dW db. spec_layer_backward L nl caches dscores (Suc j) = Inr (dout, dW, db))
     \<Longrightarrow> 1 \<le> i \<Longrightarrow> i \<le> j
     \<Longrightarrow> \<exists>dx dW db w gW.
           spec_layer_backward L nl caches dscores i = Inr (dx, dW, db)
           \<and> map_of ps (key_W i) = Some w
           \<and> np_add dW (np_scale rg w) = Inr gW
           \<and> map_of g (key_W i) = Some gW \<and> map_of g (key_b i) = Some db"
proof (induction j arbitrary: dout grads)
  case 0
  then show ?case by simp
next
  case (Suc j)
  from Suc.prems(1) obtain cache dout' dW db w gW where
    c: "py_index caches (int (Suc j) - 1) = Inr cache"
    and b: "(if Suc j = nl then affine_backward L dout cache
             else affine_relu_backward L dout cache) = Inr (dout', dW, db)"
    and w: "map_of ps (key_W (Suc j)) = Some w"
    and gW: "np_add dW (np_scale rg w) = Inr gW"
    and r: "backward_loop L ps rg nl caches (rev [1 ..< Suc j]) dout'
              (AList.update (key_b (Suc j)) db (AList.update (key_W (Suc j)) gW grads)) = Inr g"
    unfolding rev_upt_Suc
    by (auto simp: dict_get_Inr split: sum.splits prod.splits)
  from py_index_pred [OF c] have cache: "cache = caches ! j" by simp
  have spec: "spec_layer_backward L nl caches dscores (Suc j) = Inr (dout', dW, db)"
  proof (cases "Suc j = nl")
    case True
    with Suc.prems(3) have "dout = dscores" by simp
    with True b cache show ?thesis
      using spec_layer_backward_last [of L nl caches dscores] by auto
  next
    case False
    with Suc.prems(2) have lt: "Suc j < nl" by simp
    from False Suc.prems(3) obtain dW' db' where
      up: "spec_layer_backward L nl caches dscores (Suc (Suc j)) = Inr (dout, dW', db')"
      by auto
    from spec_layer_backward_hidden [OF lt up] False b cache show ?thesis by simp
  qed
  show ?case
  proof (cases "i = Suc j")
    case True
    have "\<forall>i'\<in>set (rev [1 ..< Suc j]). key_W (Suc j) \<noteq> key_W i' \<and> key_W (Suc j) \<noteq> key_b i'"
      by auto
    from backward_loop_frame [OF r this]
    have g1: "map_of g (key_W (Suc j)) = Some gW" by (simp add: AList.update_conv')
    have "\<forall>i'\<in>set (rev [1 ..< Suc j]). key_b (Suc j) \<noteq> key_W i' \<and> key_b (Suc j) \<noteq> key_b i'"
      by auto
    from backward_loop_frame [OF r this]
    have g2: "map_of g (key_b (Suc j)) = Some db" by (simp add: AList.update_conv')
    from spec w gW g1 g2 True show ?thesis by blast
  next
    case False
    with Suc.prems(5) have le: "i \<le> j" by simp
    have jn: "j \<le> nl" "j \<noteq> nl" using Suc.prems(2) by simp_all
    have up: "if j = nl then dout' = dscores
          else \<exists>dW db. spec_layer_backward L nl caches dscores (Suc j) = Inr (dout', dW, db)"
      using jn spec by auto
    from Suc.IH [OF r jn(1) up Suc.prems(4) le] show ?thesis .
  qed
qed

lemma broadcast_dims_same: "broadcast_dims xs xs = Some xs"
  by (induction xs) simp_all

lemma np_add_same_shape:
  "shape a = shape b \<Longrightarrow> np_add a b = Inr c \<Longrightarrow> shape c = shape b"
  by (auto simp: np_add_def broadcast_shapes_def broadcast_dims_same)

lemma np_scale_shape [simp]: "shape (np_scale c a) = shape a"
  by (simp add: np_scale_def)

lemma source_index_same: "k < prod_list xs \<Longrightarrow> source_index xs xs k = k"
proof (induction xs arbitrary: k)
  case Nil
  then show ?case by simp
next
  case (Cons s ss)
  from Cons.prems have "k div s < prod_list ss"
    by (simp add: less_mult_imp_div_less mult.commute)
  from Cons.IH [OF this] have ih: "source_index ss ss (k div s) = k div s" .
  have "(if s = 1 then 0 else k mod s) = k mod s" by simp
  then show ?case by (simp add: ih)
qed

lemma broadcast_to_own_shape:
  "broadcast_to a (shape a) = map (\<lambda>k. data a ! k) [0 ..< prod_list (shape a)]"
  unfolding broadcast_to_def
  by (rule map_cong) (simp_all add: source_index_same)

lemma np_add_value:
  assumes "shape a = shape b" and "well_formed a" and "well_formed b"
  shows "np_add a b = Inr \<lparr>shape = shape b, data = map2 (+) (data a) (data b)\<rparr>"
proof -
  have "broadcast_to a (shape a) = data a" "broadcast_to b (shape b) = data b"
    using assms(2,3) by (metis broadcast_to_own_shape well_formed_def map_nth)+
  with assms(1) show ?thesis
    by (simp add: np_add_def broadcast_shapes_def broadcast_dims_same)
qed

lemma regularized_gradient_value:
  assumes sh: "shape dW = shape W" and wf: "well_formed W"
    and add: "np_add dW (np_scale rg W) = Inr gW"
  shows "data gW = map (\<lambda>k. data dW ! k + rg * data W ! k) [0 ..< prod_list (shape W)]"
proof -
  let ?n = "prod_list (shape W)"
  have a: "broadcast_to dW (shape W) = map (\<lambda>k. data dW ! k) [0 ..< ?n]"
    using broadcast_to_own_shape [of dW] sh by simp
  have "broadcast_to (np_scale rg W) (shape W)
          = map (\<lambda>k. data (np_scale rg W) ! k) [0 ..< ?n]"
    using broadcast_to_own_shape [of "np_scale rg W"] by simp
  also have "\<dots> = map (\<lambda>k. rg * data W ! k) [0 ..< ?n]"
    using wf by (intro map_cong) (simp_all add: np_scale_def well_formed_def)
  finally have b: "broadcast_to (np_scale rg W) (shape W) = map (\<lambda>k. rg * data W ! k) [0 ..< ?n]" .
  from add sh have "data gW = map2 (+) (broadcast_to dW (shape W))
                                 (broadcast_to (np_scale rg W) (shape W))"
    by (auto simp: np_add_def broadcast_shapes_def broadcast_dims_same)
  also have "\<dots> = map (\<lambda>k. data dW ! k + rg * data W ! k) [0 ..< ?n]"
    unfolding a b by (simp add: zip_map_map map_zip_map2 zip_same_conv_map)
  finally show ?thesis .
qed

lemma forward_loop_caches:
  "forward_loop L ps nl idxs outp scores cl = Inr (outp', scores', cl')
     \<Longrightarrow> length cl' = length cl + length idxs \<and> take (length cl) cl' = cl
        \<and> (\<forall>q<length idxs. \<exists>x w b out.
              map_of ps (key_W (idxs ! q)) = Some w \<and> map_of ps (key_b (idxs ! q)) = Some b
              \<and> (if idxs ! q \<noteq> nl then affine_relu_forward L x w b
                  else affine_forward L x w b) = Inr (out, cl' ! (length cl + q)))"
proof (induction idxs arbitrary: outp scores cl)
  case Nil
  then show ?case by simp
next
  case (Cons index rest)
  from Cons.prems obtain w b out cache o2 s2 where
    w: "map_of ps (key_W index) = Some w" and b: "map_of ps (key_b index) = Some b"
    and call: "(if index \<noteq> nl then affine_relu_forward L outp w b
                else affine_forward L outp w b) = Inr (out, cache)"
    and r: "forward_loop L ps nl rest o2 s2 (cl @ [cache]) = Inr (outp', scores', cl')"
    by (auto simp: dict_get_Inr split: sum.splits prod.splits if_splits)
  from Cons.IH [OF r] have
    len: "length cl' = length cl + 1 + length rest"
    and tk: "take (length cl + 1) cl' = cl @ [cache]"
    and rest: "\<forall>q<length rest. \<exists>x w b out.
              map_of ps (key_W (rest ! q)) = Some w \<and> map_of ps (key_b (rest ! q)) = Some b
              \<and> (if rest ! q \<noteq> nl then affine_relu_forward L x w b
                  else affine_forward L x w b) = Inr (out, cl' ! (length cl + 1 + q))"
    by simp_all
  have "take (length cl) cl' = take (length cl) (take (length cl + 1) cl')"
    by (simp add: min_def)
  also have "\<dots> = cl" using tk by simp
  finally have tk0: "take (length cl) cl' = cl" .
  from tk have at: "cl' ! length cl = cache"
    by (metis less_add_one nth_append_length nth_take)
  have "\<forall>q<length (index # rest). \<exists>x w b out.
              map_of ps (key_W ((index # rest) ! q)) = Some w
              \<and> map_of ps (key_b ((index # rest) ! q)) = Some b
              \<and> (if (index # rest) ! q \<noteq> nl then affine_relu_forward L x w b
                  else affine_forward L x w b) = Inr (out, cl' ! (length cl + q))"
  proof (intro allI impI)
    fix q assume q: "q < length (index # rest)"
    show "\<exists>x w b out.
              map_of ps (key_W ((index # rest) ! q)) = Some w
              \<and> map_of ps (key_b ((index # rest) ! q)) = Some b
              \<and> (if (index # rest) ! q \<noteq> nl then affine_relu_forward L x w b
                  else affine_forward L x w b) = Inr (out, cl' ! (length cl + q))"
    proof (cases q)
      case 0
      with w b call at show ?thesis
        by (intro exI [of _ outp] exI [of _ w] exI [of _ b] exI [of _ out]) simp
    next
      case (Suc q')
      with q have "q' < length rest" by simp
      with rest Suc show ?thesis by simp
    qed
  qed
  with len tk0 show ?case by simp
qed

lemma spec_layer_backward_call:
  "spec_layer_backward L nl caches dscores i = Inr (dx, dW, db)
     \<Longrightarrow> \<exists>d. (if nl \<le> i then affine_backward L d (caches ! (i - 1))
              else affine_relu_backward L d (caches ! (i - 1))) = Inr (dx, dW, db)"
  by (subst (asm) spec_layer_backward.simps) (auto split: if_splits sum.splits)

lemma backward_shapes:
  assumes fwd: "(if i \<noteq> nl then affine_relu_forward L x w b else affine_forward L x w b)
                  = Inr (out, caches ! (i - 1))"
    and i: "i \<le> nl"
    and spec: "spec_layer_backward L nl caches dscores i = Inr (dx, dW, db)"
    and c1: "backward_contract (affine_forward L) (affine_backward L)"
    and c2: "backward_contract (affine_relu_forward L) (affine_relu_backward L)"
  shows "shape dW = shape w \<and> shape db = shape b"
proof -
  from spec_layer_backward_call [OF spec] obtain d where
    d: "(if nl \<le> i then affine_backward L d (caches ! (i - 1))
         else affine_relu_backward L d (caches ! (i - 1))) = Inr (dx, dW, db)" ..
  show ?thesis
  proof (cases "i = nl")
    case True
    with fwd d have "affine_forward L x w b = Inr (out, caches ! (i - 1))"
      "affine_backward L d (caches ! (i - 1)) = Inr (dx, dW, db)" by simp_all
    with c1 show ?thesis unfolding backward_contract_def by blast
  next
    case False
    with i have "\<not> nl \<le> i" by simp
    with False fwd d have "affine_relu_forward L x w b = Inr (out, caches ! (i - 1))"
      "affine_relu_backward L d (caches ! (i - 1)) = Inr (dx, dW, db)" by simp_all
    with c2 show ?thesis unfolding backward_contract_def by blast
  qed
qed

lemma fcn_grads:
  assumes ok: "fst (loss L self X (Some y)) = Inr (LossGrads l g)"
  shows "\<exists>out scores caches softmax dout.
     forward_pass L self (astype (dtype self) X) = Inr (out, scores, caches)
     \<and> softmax_loss L scores y = Inr (softmax, dout)
     \<and> map fst g = concat (map (\<lambda>i. [key_W i, key_b i]) (rev [1 ..< num_layers self + 1]))
     \<and> (\<forall>i. 1 \<le> i \<and> i \<le> num_layers self \<longrightarrow>
          (\<exists>dx dW db W b gW.
             spec_layer_backward L (num_layers self) caches dout i = Inr (dx, dW, db)
             \<and> map_of (params self) (key_W i) = Some W
             \<and> map_of (params self) (key_b i) = Some b
             \<and> np_add dW (np_scale (reg self) W) = Inr gW
             \<and> map_of g (key_W i) = Some gW \<and> map_of g (key_b i) = Some db
             \<and> (backward_contract (affine_forward L) (affine_backward L)
                  \<and> backward_contract (affine_relu_forward L) (affine_relu_backward L)
                \<longrightarrow> shape dW = shape W \<and> shape gW = shape W \<and> shape db = shape b)
             \<and> (shape dW = shape W \<and> well_formed W
                \<longrightarrow> data gW = map (\<lambda>k. data dW ! k + reg self * data W ! k)
                                  [0 ..< prod_list (shape W)])))"
proof -
  let ?nl = "num_layers self"
  from loss_train_parts [OF ok] obtain out scores caches softmax dout where
    f: "forward_pass L self (astype (dtype self) X) = Inr (out, scores, caches)"
    and s: "softmax_loss L scores y = Inr (softmax, dout)"
    and bw: "backward_loop L (params self) (reg self) ?nl caches (rev [1 ..< Suc ?nl]) dout []
               = Inr g"
    by (auto simp: py_range_def)
  have keys: "map fst g = concat (map (\<lambda>i. [key_W i, key_b i]) (rev [1 ..< ?nl + 1]))"
    using backward_loop_keys [OF bw] by simp
  from f have fl: "forward_loop L (params self) ?nl [1 ..< ?nl + 1] (astype (dtype self) X)
                     None [] = Inr (out, scores, caches)"
    by (simp add: forward_pass_def py_range_def)
  note fc = forward_loop_caches [OF fl]
  have each: "\<forall>i. 1 \<le> i \<and> i \<le> ?nl \<longrightarrow>
            (\<exists>dx dW db W b gW.
             spec_layer_backward L ?nl caches dout i = Inr (dx, dW, db)
             \<and> map_of (params self) (key_W i) = Some W
             \<and> map_of (params self) (key_b i) = Some b
             \<and> np_add dW (np_scale (reg self) W) = Inr gW
             \<and> map_of g (key_W i) = Some gW \<and> map_of g (key_b i) = Some db
             \<and> (backward_contract (affine_forward L) (affine_backward L)
                  \<and> backward_contract (affine_relu_forward L) (affine_relu_backward L)
                \<longrightarrow> shape dW = shape W \<and> shape gW = shape W \<and> shape db = shape b)
             \<and> (shape dW = shape W \<and> well_formed W
                \<longrightarrow> data gW = map (\<lambda>k. data dW ! k + reg self * data W ! k)
                                  [0 ..< prod_list (shape W)]))"
  proof (intro allI impI)
    fix i assume "1 \<le> i \<and> i \<le> ?nl"
    then have i: "1 \<le> i" "i \<le> ?nl" by simp_all
    show "\<exists>dx dW db W b gW.
             spec_layer_backward L ?nl caches dout i = Inr (dx, dW, db)
             \<and> map_of (params self) (key_W i) = Some W
             \<and> map_of (params self) (key_b i) = Some b
             \<and> np_add dW (np_scale (reg self) W) = Inr gW
             \<and> map_of g (key_W i) = Some gW \<and> map_of g (key_b i) = Some db
             \<and> (backward_contract (affine_forward L) (affine_backward L)
                  \<and> backward_contract (affine_relu_forward L) (affine_relu_backward L)
                \<longrightarrow> shape dW = shape W \<and> shape gW = shape W \<and> shape db = shape b)
             \<and> (shape dW = shape W \<and> well_formed W
                \<longrightarrow> data gW = map (\<lambda>k. data dW ! k + reg self * data W ! k)
                                  [0 ..< prod_list (shape W)])"
    proof -
      from backward_loop_values [OF bw le_refl _ i, of dout] obtain dx dW db W gW where
        spec: "spec_layer_backward L ?nl caches dout i = Inr (dx, dW, db)"
        and W: "map_of (params self) (key_W i) = Some W"
        and gW: "np_add dW (np_scale (reg self) W) = Inr gW"
        and g: "map_of g (key_W i) = Some gW" "map_of g (key_b i) = Some db"
        by auto
      from i have q: "i - 1 < length [1 ..< ?nl + 1]" "[1 ..< ?nl + 1] ! (i - 1) = i"
        by (simp_all del: upt_Suc)
      with fc obtain x w b o' where
        w: "map_of (params self) (key_W i) = Some w" and b: "map_of (params self) (key_b i) = Some b"
        and call: "(if i \<noteq> ?nl then affine_relu_forward L x w b else affine_forward L x w b)
                     = Inr (o', caches ! (i - 1))"
        by (metis add_0 list.size(3))
      from w W have wW: "w = W" by simp
      have shapes: "backward_contract (affine_forward L) (affine_backward L)
                  \<and> backward_contract (affine_relu_forward L) (affine_relu_backward L)
                \<longrightarrow> shape dW = shape W \<and> shape gW = shape W \<and> shape db = shape b"
      proof (intro impI, elim conjE)
        assume c: "backward_contract (affine_forward L) (affine_backward L)"
            "backward_contract (affine_relu_forward L) (affine_relu_backward L)"
        from backward_shapes [OF call i(2) spec c] wW
        have sh: "shape dW = shape W" "shape db = shape b" by simp_all
        from np_add_same_shape [OF _ gW] sh
        show "shape dW = shape W \<and> shape gW = shape W \<and> shape db = shape b" by simp
      qed
      have val: "shape dW = shape W \<and> well_formed W
                \<longrightarrow> data gW = map (\<lambda>k. data dW ! k + reg self * data W ! k)
                                  [0 ..< prod_list (shape W)]"
      proof (intro impI, elim conjE)
        assume "shape dW = shape W" "well_formed W"
        then show "data gW = map (\<lambda>k. data dW ! k + reg self * data W ! k)
                                  [0 ..< prod_list (shape W)]"
          using gW by (rule regularized_gradient_value)
      qed
      show ?thesis
        by (intro exI conjI) (rule spec W b gW g shapes val)+
    qed
  qed
  show ?thesis
    by (intro exI conjI) (rule f s keys each)+
qed

lemma two_layer_forward_parts:
  "TwoLayerNet_forward L self X = Inr (scores, ch, co) \<Longrightarrow>
     \<exists>W1 b1 h W2 b2.
       map_of (params self) ''W1'' = Some W1 \<and> map_of (params self) ''b1'' = Some b1
       \<and> affine_relu_forward L X W1 b1 = Inr (h, ch)
       \<and> map_of (params self) ''W2'' = Some W2 \<and> map_of (params self) ''b2'' = Some b2
       \<and> affine_forward L h W2 b2 = Inr (scores, co)"
  by (auto simp: TwoLayerNet_forward_def dict_get_Inr split: sum.splits prod.splits)

lemma two_layer_grads:
  assumes ok: "fst (TwoLayerNet_loss L self X (Some y)) = Inr (LossGrads l g)"
  shows "\<exists>scores cache_hidden cache_output softmax dout dhidden dW2 db2 dx dW1 db1
           W1 b1 W2 b2 gW1 gW2.
     TwoLayerNet_forward L self X = Inr (scores, cache_hidden, cache_output)
     \<and> softmax_loss L (Some scores) y = Inr (softmax, dout)
     \<and> affine_backward L dout cache_output = Inr (dhidden, dW2, db2)
     \<and> affine_relu_backward L dhidden cache_hidden = Inr (dx, dW1, db1)
     \<and> map_of (params self) ''W1'' = Some W1 \<and> map_of (params self) ''b1'' = Some b1
     \<and> map_of (params self) ''W2'' = Some W2 \<and> map_of (params self) ''b2'' = Some b2
     \<and> np_add dW1 (np_scale (reg self) W1) = Inr gW1
     \<and> np_add dW2 (np_scale (reg self) W2) = Inr gW2
     \<and> g = [(''W2'', gW2), (''b2'', db2), (''W1'', gW1), (''b1'', db1)]
     \<and> (backward_contract (affine_forward L) (affine_backward L)
          \<and> backward_contract (affine_relu_forward L) (affine_relu_backward L)
        \<longrightarrow> shape dW1 = shape W1 \<and> shape dW2 = shape W2
            \<and> shape gW1 = shape W1 \<and> shape db1 = shape b1
            \<and> shape gW2 = shape W2 \<and> shape db2 = shape b2)
     \<and> (shape dW1 = shape W1 \<and> well_formed W1
        \<longrightarrow> data gW1 = map (\<lambda>k. data dW1 ! k + reg self * data W1 ! k)
                           [0 ..< prod_list (shape W1)])
     \<and> (shape dW2 = shape W2 \<and> well_formed W2
        \<longrightarrow> data gW2 = map (\<lambda>k. data dW2 ! k + reg self * data W2 ! k)
                           [0 ..< prod_list (shape W2)])"
proof -
  from ok obtain scores ch co softmax dout where
    f: "TwoLayerNet_forward L self X = Inr (scores, ch, co)"
    and s: "softmax_loss L (Some scores) y = Inr (softmax, dout)"
    and gr: "TwoLayerNet_grads L self dout ch co = Inr g"
    by (auto simp: TwoLayerNet_loss_def split: sum.splits prod.splits)
  from two_layer_forward_parts [OF f] obtain W1 b1 h W2 b2 where
    p: "map_of (params self) ''W1'' = Some W1" "map_of (params self) ''b1'' = Some b1"
       "map_of (params self) ''W2'' = Some W2" "map_of (params self) ''b2'' = Some b2"
    and f1: "affine_relu_forward L X W1 b1 = Inr (h, ch)"
    and f2: "affine_forward L h W2 b2 = Inr (scores, co)"
    by blast
  from gr p obtain dhidden dW2 db2 dx dW1 db1 gW1 gW2 where
    b2: "affine_backward L dout co = Inr (dhidden, dW2, db2)"
    and b1: "affine_relu_backward L dhidden ch = Inr (dx, dW1, db1)"
    and a1: "np_add dW1 (np_scale (reg self) W1) = Inr gW1"
    and a2: "np_add dW2 (np_scale (reg self) W2) = Inr gW2"
    and g: "g = [(''W2'', gW2), (''b2'', db2), (''W1'', gW1), (''b1'', db1)]"
    by (auto simp: TwoLayerNet_grads_def dict_get_def split: sum.splits prod.splits)
  have shapes: "backward_contract (affine_forward L) (affine_backward L)
          \<and> backward_contract (affine_relu_forward L) (affine_relu_backward L)
        \<longrightarrow> shape dW1 = shape W1 \<and> shape dW2 = shape W2
            \<and> shape gW1 = shape W1 \<and> shape db1 = shape b1
            \<and> shape gW2 = shape W2 \<and> shape db2 = shape b2"
  proof (intro impI, elim conjE)
    assume c: "backward_contract (affine_forward L) (affine_backward L)"
          "backward_contract (affine_relu_forward L) (affine_relu_backward L)"
    from c(1) f2 b2 have s2: "shape dW2 = shape W2" "shape db2 = shape b2"
      unfolding backward_contract_def by blast+
    from c(2) f1 b1 have s1: "shape dW1 = shape W1" "shape db1 = shape b1"
      unfolding backward_contract_def by blast+
    from np_add_same_shape [OF _ a1] np_add_same_shape [OF _ a2] s1 s2
    show "shape dW1 = shape W1 \<and> shape dW2 = shape W2
            \<and> shape gW1 = shape W1 \<and> shape db1 = shape b1
            \<and> shape gW2 = shape W2 \<and> shape db2 = shape b2" by simp
  qed
  have v1: "shape dW1 = shape W1 \<and> well_formed W1
        \<longrightarrow> data gW1 = map (\<lambda>k. data dW1 ! k + reg self * data W1 ! k)
                           [0 ..< prod_list (shape W1)]"
  proof (intro impI, elim conjE)
    assume "shape dW1 = shape W1" "well_formed W1"
    then show "data gW1 = map (\<lambda>k. data dW1 ! k + reg self * data W1 ! k)
                           [0 ..< prod_list (shape W1)]"
      using a1 by (rule regularized_gradient_value)
  qed
  have v2: "shape dW2 = shape W2 \<and> well_formed W2
        \<longrightarrow> data gW2 = map (\<lambda>k. data dW2 ! k + reg self * data W2 ! k)
                           [0 ..< prod_list (shape W2)]"
  proof (intro impI, elim conjE)
    assume "shape dW2 = shape W2" "well_formed W2"
    then show "data gW2 = map (\<lambda>k. data dW2 ! k + reg self * data W2 ! k)
                           [0 ..< prod_list (shape W2)]"
      using a2 by (rule regularized_gradient_value)
  qed
  show ?thesis
    by (intro exI conjI) (rule f s b2 b1 p a1 a2 g shapes v1 v2)+
qed

lemma example_keys:
  "concat (map (\<lambda>i. [key_W i, key_b i]) (rev [1 ..< num_layers example_net + 1]))
     = [''W2'', ''b2'', ''W1'', ''b1'']"
  by (simp add: example_net_def key_Suc eval_nat_numeral)

lemmas grads_eval =
  example_defs loss_def set_mode_def loss_body_def forward_pass_def dict_get_def
  py_range_def upt_rec key_Suc Let_def astype_def np_linalg_norm_fro_def np_sum_def
  np_scale_def py_index_def np_add_value well_formed_def ref_eval eval_nat_numeral

lemma example_grads_value:
  "\<exists>l. fst (loss reference_layers example_net \<lparr>shape = [1, 2], data = [1, 0]\<rparr>
             (Some example_y))
     = Inr (LossGrads l
         [(''W2'', \<lparr>shape = [2, 2], data = [0, 1, 0, 1 / 2]\<rparr>),
          (''b2'', \<lparr>shape = [2], data = [- 1 / 2, 1 / 2]\<rparr>),
          (''W1'', \<lparr>shape = [2, 2], data = [1 / 2, 0, 0, 1 / 2]\<rparr>),
          (''b1'', \<lparr>shape = [2], data = [0, 0]\<rparr>)])"
  by (simp add: grads_eval)

lemma example_two_layer_grads_value:
  "\<exists>l. fst (TwoLayerNet_loss reference_layers example_two_layer_net
             \<lparr>shape = [1, 2], data = [1, 0]\<rparr> (Some example_y))
     = Inr (LossGrads l
         [(''W2'', \<lparr>shape = [2, 2], data = [0, 1, 0, 1 / 2]\<rparr>),
          (''b2'', \<lparr>shape = [2], data = [- 1 / 2, 1 / 2]\<rparr>),
          (''W1'', \<lparr>shape = [2, 2], data = [1 / 2, 0, 0, 1 / 2]\<rparr>),
          (''b1'', \<lparr>shape = [2], data = [0, 0]\<rparr>)])"
  by (simp add: grads_eval TwoLayerNet_loss_def TwoLayerNet_forward_def TwoLayerNet_grads_def)


text \<open>
  C4. When a training call of \<open>loss\<close> returns \<open>(loss, grads)\<close>: the keys of \<open>grads\<close> are
  \<open>W{i}\<close> and \<open>b{i}\<close> for every layer \<open>i\<close>, each exactly once (in the order in which the backward
  loop wrote them); for every layer, \<open>grads['W{i}']\<close> is \<open>dW_i + reg * W_i\<close> and
  \<open>grads['b{i}']\<close> is \<open>db_i\<close> with nothing added, where \<open>(dx, dW_i, db_i)\<close> is what the backward
  step of layer \<open>i\<close> returns on the cache of that layer's forward step. The sum is numpy's
  \<open>+\<close> and \<open>*\<close>; when \<open>dW_i\<close> has the shape of \<open>W_i\<close>, entry \<open>k\<close> of \<open>grads['W{i}']\<close> is
  \<open>dW_i[k] + reg * W_i[k]\<close> in real arithmetic. When the backward primitives return
  gradients of the shapes of their parameters, \<open>dW_i\<close> has that shape and every entry of
  \<open>grads\<close> has the shape of the parameter of the same name. This holds for
  \<open>FullyConnectedNet\<close> and for \<open>TwoLayerNet\<close>.
\<close>

theorem training_grads:
  "(fst (loss L self X (Some y)) = Inr (LossGrads l g) \<longrightarrow>
     (\<exists>out scores caches softmax dout.
        forward_pass L self (astype (dtype self) X) = Inr (out, scores, caches)
        \<and> softmax_loss L scores y = Inr (softmax, dout)
        \<and> map fst g = concat (map (\<lambda>i. [key_W i, key_b i]) (rev [1 ..< num_layers self + 1]))
        \<and> (\<forall>i. 1 \<le> i \<and> i \<le> num_layers self \<longrightarrow>
             (\<exists>dx dW db W b gW.
                spec_layer_backward L (num_layers self) caches dout i = Inr (dx, dW, db)
                \<and> map_of (params self) (key_W i) = Some W
                \<and> map_of (params self) (key_b i) = Some b
                \<and> np_add dW (np_scale (reg self) W) = Inr gW
                \<and> map_of g (key_W i) = Some gW \<and> map_of g (key_b i) = Some db
                \<and> (backward_contract (affine_forward L) (affine_backward L)
                     \<and> backward_contract (affine_relu_forward L) (affine_relu_backward L)
                   \<longrightarrow> shape dW = shape W \<and> shape gW = shape W \<and> shape db = shape b)
                \<and> (shape dW = shape W \<and> well_formed W
                   \<longrightarrow> data gW = map (\<lambda>k. data dW ! k + reg self * data W ! k)
                                     [0 ..< prod_list (shape W)])))))
   \<and> (fst (TwoLayerNet_loss L self2 X2 (Some y2)) = Inr (LossGrads l2 g2) \<longrightarrow>
     (\<exists>scores cache_hidden cache_output softmax dout dhidden dW2 db2 dx dW1 db1
           W1 b1 W2 b2 gW1 gW2.
        TwoLayerNet_forward L self2 X2 = Inr (scores, cache_hidden, cache_output)
        \<and> softmax_loss L (Some scores) y2 = Inr (softmax, dout)
        \<and> affine_backward L dout cache_output = Inr (dhidden, dW2, db2)
        \<and> affine_relu_backward L dhidden cache_hidden = Inr (dx, dW1, db1)
        \<and> map_of (params self2) ''W1'' = Some W1 \<and> map_of (params self2) ''b1'' = Some b1
        \<and> map_of (params self2) ''W2'' = Some W2 \<and> map_of (params self2) ''b2'' = Some b2
        \<and> np_add dW1 (np_scale (reg self2) W1) = Inr gW1
        \<and> np_add dW2 (np_scale (reg self2) W2) = Inr gW2
        \<and> g2 = [(''W2'', gW2), (''b2'', db2), (''W1'', gW1), (''b1'', db1)]
        \<and> (backward_contract (affine_forward L) (affine_backward L)
             \<and> backward_contract (affine_relu_forward L) (affine_relu_backward L)
           \<longrightarrow> shape dW1 = shape W1 \<and> shape dW2 = shape W2
               \<and> shape gW1 = shape W1 \<and> shape db1 = shape b1
               \<and> shape gW2 = shape W2 \<and> shape db2 = shape b2)
        \<and> (shape dW1 = shape W1 \<and> well_formed W1
           \<longrightarrow> data gW1 = map (\<lambda>k. data dW1 ! k + reg self2 * data W1 ! k)
                              [0 ..< prod_list (shape W1)])
        \<and> (shape dW2 = shape W2 \<and> well_formed W2
           \<longrightarrow> data gW2 = map (\<lambda>k. data dW2 ! k + reg self2 * data W2 ! k)
                              [0 ..< prod_list (shape W2)])))"
  using fcn_grads [of L self X y l g] two_layer_grads [of L self2 X2 y2 l2 g2]
  by (intro conjI impI) assumption+

theorem training_grads_witness:
  "backward_contract (affine_forward reference_layers) (affine_backward reference_layers)
   \<and> backward_contract (affine_relu_forward reference_layers)
        (affine_relu_backward reference_layers)
   \<and> (\<exists>l g. fst (loss reference_layers example_net \<lparr>shape = [1, 2], data = [1, 0]\<rparr>
                   (Some example_y)) = Inr (LossGrads l g)
        \<and> g = [(''W2'', \<lparr>shape = [2, 2], data = [0, 1, 0, 1 / 2]\<rparr>),
               (''b2'', \<lparr>shape = [2], data = [- 1 / 2, 1 / 2]\<rparr>),
               (''W1'', \<lparr>shape = [2, 2], data = [1 / 2, 0, 0, 1 / 2]\<rparr>),
               (''b1'', \<lparr>shape = [2], data = [0, 0]\<rparr>)]
        \<and> map fst g = concat (map (\<lambda>i. [key_W i, key_b i])
                                (rev [1 ..< num_layers example_net + 1]))
        \<and> (\<exists>(dW1::ndarray) (dW2::ndarray). shape dW1 = [2, 2] \<and> shape dW2 = [2, 2]
              \<and> [1 / 2, 0, 0, 1 / 2]
                  = map (\<lambda>k. data dW1 ! k + 1 / 2 * [1, 0, 0, 1] ! k) [0 ..< 4]
              \<and> [0, 1, 0, 1 / 2]
                  = map (\<lambda>k. data dW2 ! k + 1 / 2 * [1, 1, 0, 1] ! k) [0 ..< 4]))
   \<and> (\<exists>l2 g2. fst (TwoLayerNet_loss reference_layers example_two_layer_net
                     \<lparr>shape = [1, 2], data = [1, 0]\<rparr> (Some example_y))
                 = Inr (LossGrads l2 g2)
        \<and> g2 = [(''W2'', \<lparr>shape = [2, 2], data = [0, 1, 0, 1 / 2]\<rparr>),
                (''b2'', \<lparr>shape = [2], data = [- 1 / 2, 1 / 2]\<rparr>),
                (''W1'', \<lparr>shape = [2, 2], data = [1 / 2, 0, 0, 1 / 2]\<rparr>),
                (''b1'', \<lparr>shape = [2], data = [0, 0]\<rparr>)]
        \<and> (\<exists>(dW1::ndarray) (dW2::ndarray). shape dW1 = [2, 2] \<and> shape dW2 = [2, 2]
              \<and> [1 / 2, 0, 0, 1 / 2]
                  = map (\<lambda>k. data dW1 ! k + 1 / 2 * [1, 0, 0, 1] ! k) [0 ..< 4]
              \<and> [0, 1, 0, 1 / 2]
                  = map (\<lambda>k. data dW2 ! k + 1 / 2 * [1, 1, 0, 1] ! k) [0 ..< 4]))"
proof -
  let ?X = "\<lparr>shape = [1, 2], data = [1, 0]\<rparr>"
  let ?G = "[(''W2'', \<lparr>shape = [2, 2], data = [0, 1, 0, 1 / 2]\<rparr>),
             (''b2'', \<lparr>shape = [2], data = [- 1 / 2, 1 / 2]\<rparr>),
             (''W1'', \<lparr>shape = [2, 2], data = [1 / 2, 0, 0, 1 / 2]\<rparr>),
             (''b1'', \<lparr>shape = [2], data = [0, 0 :: real]\<rparr>)]"
  note c = ref_contracts
  obtain l where a: "fst (loss reference_layers example_net ?X (Some example_y))
                       = Inr (LossGrads l ?G)"
    using example_grads_value by blast
  obtain l2 where b: "fst (TwoLayerNet_loss reference_layers example_two_layer_net ?X
                             (Some example_y)) = Inr (LossGrads l2 ?G)"
    using example_two_layer_grads_value by blast
  note t = training_grads [of reference_layers example_net ?X example_y l ?G
      example_two_layer_net ?X example_y l2 ?G]
  from t [THEN conjunct1, THEN mp, OF a] obtain caches dout where
    keys: "map fst ?G = concat (map (\<lambda>i. [key_W i, key_b i])
                                (rev [1 ..< num_layers example_net + 1]))"
    and all: "\<forall>i. 1 \<le> i \<and> i \<le> num_layers example_net \<longrightarrow>
             (\<exists>dx dW db W b gW.
                spec_layer_backward reference_layers (num_layers example_net) caches dout i
                  = Inr (dx, dW, db)
                \<and> map_of (params example_net) (key_W i) = Some W
                \<and> map_of (params example_net) (key_b i) = Some b
                \<and> np_add dW (np_scale (reg example_net) W) = Inr gW
                \<and> map_of ?G (key_W i) = Some gW \<and> map_of ?G (key_b i) = Some db
                \<and> (backward_contract (affine_forward reference_layers)
                       (affine_backward reference_layers)
                     \<and> backward_contract (affine_relu_forward reference_layers)
                         (affine_relu_backward reference_layers)
                   \<longrightarrow> shape dW = shape W \<and> shape gW = shape W \<and> shape db = shape b)
                \<and> (shape dW = shape W \<and> well_formed W
                   \<longrightarrow> data gW = map (\<lambda>k. data dW ! k + reg example_net * data W ! k)
                                     [0 ..< prod_list (shape W)]))"
    by (elim exE conjE) (rule that)
  have r1: "1 \<le> (1::nat) \<and> 1 \<le> num_layers example_net"
    by (simp add: example_net_def)
  from all [rule_format, OF r1] obtain dx1 dW1 db1 W1 b1 gW1 where
    h1: "spec_layer_backward reference_layers (num_layers example_net) caches dout 1
                  = Inr (dx1, dW1, db1)
         \<and> map_of (params example_net) (key_W 1) = Some W1
         \<and> map_of (params example_net) (key_b 1) = Some b1
         \<and> np_add dW1 (np_scale (reg example_net) W1) = Inr gW1
         \<and> map_of ?G (key_W 1) = Some gW1 \<and> map_of ?G (key_b 1) = Some db1
         \<and> (backward_contract (affine_forward reference_layers)
                (affine_backward reference_layers)
              \<and> backward_contract (affine_relu_forward reference_layers)
                  (affine_relu_backward reference_layers)
            \<longrightarrow> shape dW1 = shape W1 \<and> shape gW1 = shape W1
                \<and> shape db1 = shape b1)
         \<and> (shape dW1 = shape W1 \<and> well_formed W1
            \<longrightarrow> data gW1
                  = map (\<lambda>k. data dW1 ! k + reg example_net * data W1 ! k)
                      [0 ..< prod_list (shape W1)])"
    by (elim exE) (rule that)
  from h1 have W1v: "W1 = \<lparr>shape = [2, 2], data = [1, 0, 0, 1]\<rparr>"
    by (simp add: example_net_def key_Suc eval_nat_numeral)
  from h1 have gW1v: "gW1 = \<lparr>shape = [2, 2], data = [1 / 2, 0, 0, 1 / 2]\<rparr>"
    by (simp add: key_Suc eval_nat_numeral)
  from h1 c have "shape dW1 = shape W1" by blast
  with W1v have s1: "shape dW1 = [2, 2]" by simp
  from h1 have "shape dW1 = shape W1 \<and> well_formed W1
            \<longrightarrow> data gW1
                  = map (\<lambda>k. data dW1 ! k + reg example_net * data W1 ! k)
                      [0 ..< prod_list (shape W1)]"
    by (elim conjE)
  with s1 W1v gW1v
  have v1: "[1 / 2, 0, 0, 1 / 2] = map (\<lambda>k. data dW1 ! k + 1 / 2 * [1, 0, 0, 1] ! k) [0 ..< 4]"
    by (simp add: well_formed_def example_net_def del: upt_Suc)
  have r2: "1 \<le> (2::nat) \<and> 2 \<le> num_layers example_net"
    by (simp add: example_net_def)
  from all [rule_format, OF r2] obtain dx2 dW2 db2 W2 b2 gW2 where
    h2: "spec_layer_backward reference_layers (num_layers example_net) caches dout 2
                  = Inr (dx2, dW2, db2)
         \<and> map_of (params example_net) (key_W 2) = Some W2
         \<and> map_of (params example_net) (key_b 2) = Some b2
         \<and> np_add dW2 (np_scale (reg example_net) W2) = Inr gW2
         \<and> map_of ?G (key_W 2) = Some gW2 \<and> map_of ?G (key_b 2) = Some db2
         \<and> (backward_contract (affine_forward reference_layers)
                (affine_backward reference_layers)
              \<and> backward_contract (affine_relu_forward reference_layers)
                  (affine_relu_backward reference_layers)
            \<longrightarrow> shape dW2 = shape W2 \<and> shape gW2 = shape W2
                \<and> shape db2 = shape b2)
         \<and> (shape dW2 = shape W2 \<and> well_formed W2
            \<longrightarrow> data gW2
                  = map (\<lambda>k. data dW2 ! k + reg example_net * data W2 ! k)
                      [0 ..< prod_list (shape W2)])"
    by (elim exE) (rule that)
  from h2 have W2v: "W2 = \<lparr>shape = [2, 2], data = [1, 1, 0, 1]\<rparr>"
    by (simp add: example_net_def key_Suc eval_nat_numeral)
  from h2 have gW2v: "gW2 = \<lparr>shape = [2, 2], data = [0, 1, 0, 1 / 2]\<rparr>"
    by (simp add: key_Suc eval_nat_numeral)
  from h2 c have "shape dW2 = shape W2" by blast
  with W2v have s2: "shape dW2 = [2, 2]" by simp
  from h2 have "shape dW2 = shape W2 \<and> well_formed W2
            \<longrightarrow> data gW2
                  = map (\<lambda>k. data dW2 ! k + reg example_net * data W2 ! k)
                      [0 ..< prod_list (shape W2)]"
    by (elim conjE)
  with s2 W2v gW2v
  have v2: "[0, 1, 0, 1 / 2] = map (\<lambda>k. data dW2 ! k + 1 / 2 * [1, 1, 0, 1] ! k) [0 ..< 4]"
    by (simp add: well_formed_def example_net_def del: upt_Suc)
  have A: "\<exists>(dW1::ndarray) (dW2::ndarray). shape dW1 = [2, 2] \<and> shape dW2 = [2, 2]
              \<and> [1 / 2, 0, 0, 1 / 2]
                  = map (\<lambda>k. data dW1 ! k + 1 / 2 * [1, 0, 0, 1] ! k) [0 ..< 4]
              \<and> [0, 1, 0, 1 / 2]
                  = map (\<lambda>k. data dW2 ! k + 1 / 2 * [1, 1, 0, 1] ! k) [0 ..< 4]"
    by (rule exI [of _ dW1], rule exI [of _ dW2], intro conjI) (rule s1 s2 v1 v2)+
  from t [THEN conjunct2, THEN mp, OF b]
  obtain scores ch co softmax dout' dhidden dW2' db2' dx' dW1' db1' W1' b1' W2' b2' gW1' gW2'
    where k: "TwoLayerNet_forward reference_layers example_two_layer_net ?X
                = Inr (scores, ch, co)
        \<and> softmax_loss reference_layers (Some scores) example_y = Inr (softmax, dout')
        \<and> affine_backward reference_layers dout' co = Inr (dhidden, dW2', db2')
        \<and> affine_relu_backward reference_layers dhidden ch = Inr (dx', dW1', db1')
        \<and> map_of (params example_two_layer_net) ''W1'' = Some W1'
        \<and> map_of (params example_two_layer_net) ''b1'' = Some b1'
        \<and> map_of (params example_two_layer_net) ''W2'' = Some W2'
        \<and> map_of (params example_two_layer_net) ''b2'' = Some b2'
        \<and> np_add dW1' (np_scale (reg example_two_layer_net) W1') = Inr gW1'
        \<and> np_add dW2' (np_scale (reg example_two_layer_net) W2') = Inr gW2'
        \<and> ?G = [(''W2'', gW2'), (''b2'', db2'), (''W1'', gW1'), (''b1'', db1')]
        \<and> (backward_contract (affine_forward reference_layers)
               (affine_backward reference_layers)
             \<and> backward_contract (affine_relu_forward reference_layers)
                 (affine_relu_backward reference_layers)
           \<longrightarrow> shape dW1' = shape W1' \<and> shape dW2' = shape W2'
               \<and> shape gW1' = shape W1' \<and> shape db1' = shape b1'
               \<and> shape gW2' = shape W2' \<and> shape db2' = shape b2')
        \<and> (shape dW1' = shape W1' \<and> well_formed W1'
           \<longrightarrow> data gW1' = map (\<lambda>k. data dW1' ! k + reg example_two_layer_net * data W1' ! k)
                              [0 ..< prod_list (shape W1')])
        \<and> (shape dW2' = shape W2' \<and> well_formed W2'
           \<longrightarrow> data gW2' = map (\<lambda>k. data dW2' ! k + reg example_two_layer_net * data W2' ! k)
                              [0 ..< prod_list (shape W2')])"
    by (elim exE) (rule that)
  from k have Wv: "W1' = \<lparr>shape = [2, 2], data = [1, 0, 0, 1]\<rparr>"
      "W2' = \<lparr>shape = [2, 2], data = [1, 1, 0, 1]\<rparr>"
    by (simp_all add: example_two_layer_net_def)
  from k have gv: "gW1' = \<lparr>shape = [2, 2], data = [1 / 2, 0, 0, 1 / 2]\<rparr>"
      "gW2' = \<lparr>shape = [2, 2], data = [0, 1, 0, 1 / 2]\<rparr>"
    by simp_all
  from k c have "shape dW1' = shape W1' \<and> shape dW2' = shape W2'" by blast
  with Wv have s': "shape dW1' = [2, 2]" "shape dW2' = [2, 2]" by simp_all
  from k have "shape dW1' = shape W1' \<and> well_formed W1'
           \<longrightarrow> data gW1' = map (\<lambda>k. data dW1' ! k + reg example_two_layer_net * data W1' ! k)
                              [0 ..< prod_list (shape W1')]"
    by (elim conjE)
  with s' Wv gv
  have v1': "[1 / 2, 0, 0, 1 / 2]
               = map (\<lambda>k. data dW1' ! k + 1 / 2 * [1, 0, 0, 1] ! k) [0 ..< 4]"
    by (simp add: well_formed_def example_two_layer_net_def del: upt_Suc)
  from k have "shape dW2' = shape W2' \<and> well_formed W2'
           \<longrightarrow> data gW2' = map (\<lambda>k. data dW2' ! k + reg example_two_layer_net * data W2' ! k)
                              [0 ..< prod_list (shape W2')]"
    by (elim conjE)
  with s' Wv gv
  have v2': "[0, 1, 0, 1 / 2]
               = map (\<lambda>k. data dW2' ! k + 1 / 2 * [1, 1, 0, 1] ! k) [0 ..< 4]"
    by (simp add: well_formed_def example_two_layer_net_def del: upt_Suc)
  have B: "\<exists>(dW1::ndarray) (dW2::ndarray). shape dW1 = [2, 2] \<and> shape dW2 = [2, 2]
              \<and> [1 / 2, 0, 0, 1 / 2]
                  = map (\<lambda>k. data dW1 ! k + 1 / 2 * [1, 0, 0, 1] ! k) [0 ..< 4]
              \<and> [0, 1, 0, 1 / 2]
                  = map (\<lambda>k. data dW2 ! k + 1 / 2 * [1, 1, 0, 1] ! k) [0 ..< 4]"
    by (rule exI [of _ dW1'], rule exI [of _ dW2'], intro conjI) (rule s' v1' v2')+
  show ?thesis
    by (intro conjI exI [of _ l] exI [of _ l2] exI [of _ "?G"])
      (rule c a b keys A B refl)+
qed

end
